theory Spec2Isabelle
  imports Complex_Main
begin

section \<open>Python values, exceptions and text\<close>

text \<open>
  The chatbot is Python. A \<^verbatim>\<open>str\<close> is represented by its UTF-8 bytes, so an ASCII
  literal of the source is the same literal here and an emoji of the source is the byte
  sequence \<open>utf8 cp\<close> of its code point. Substring tests agree on both representations;
  the one place where the source counts characters (\<^verbatim>\<open>user_message[:50]\<close>) counts
  code points, see \<open>str_prefix\<close>.

  A JSON request body reaches the code as untyped Python values, so a message is a
  \<open>pyval\<close>: the annotation \<^verbatim>\<open>user_message: str\<close> of the source is not enforced at run
  time. A \<^verbatim>\<open>float\<close> is modelled by the rational number it denotes (every finite double
  is one). Where the code formats a float, the model follows CPython on doubles: a literal
  such as \<^verbatim>\<open>0.918\<close> is \<open>py_float\<close> of the decimal, the format \<^verbatim>\<open>%\<close> multiplies by 100
  with the rounding of double arithmetic, and the digits printed are those of the exact
  value of the double. The sums, products and quotients inside the numeric collaborator,
  whose digits no property below depends on, are exact and not rounded.
\<close>

datatype pyval =
    PNone
  | PBool bool
  | PInt int
  | PFloat rat
  | PStr string
  | PList "pyval list"
  | PDict "(string \<times> pyval) list"

text \<open>Python truth value testing, as used by \<^verbatim>\<open>if x\<close> and \<^verbatim>\<open>not x\<close>.\<close>

fun truthy :: "pyval \<Rightarrow> bool" where
  "truthy PNone = False"
| "truthy (PBool b) = b"
| "truthy (PInt i) = (i \<noteq> 0)"
| "truthy (PFloat r) = (r \<noteq> 0)"
| "truthy (PStr s) = (s \<noteq> [])"
| "truthy (PList xs) = (xs \<noteq> [])"
| "truthy (PDict kvs) = (kvs \<noteq> [])"

fun type_name :: "pyval \<Rightarrow> string" where
  "type_name PNone = ''NoneType''"
| "type_name (PBool b) = ''bool''"
| "type_name (PInt i) = ''int''"
| "type_name (PFloat r) = ''float''"
| "type_name (PStr s) = ''str''"
| "type_name (PList xs) = ''list''"
| "type_name (PDict kvs) = ''dict''"

text \<open>
  The exceptions the modelled code can raise. \<open>AttributeError t a\<close>: a value of type
  \<open>t\<close> has no attribute \<open>a\<close>; \<open>HTTPException status detail\<close> is FastAPI's.
\<close>

datatype exn =
    AttributeError string string
  | KeyError string
  | IndexError string
  | ZeroDivisionError
  | ValueError string
  | HTTPException nat string

type_synonym 'a result = "exn + 'a"

subsection \<open>Substring test and dictionaries\<close>

fun is_prefix :: "'a list \<Rightarrow> 'a list \<Rightarrow> bool" where
  "is_prefix [] ys = True"
| "is_prefix (x # xs) [] = False"
| "is_prefix (x # xs) (y # ys) = (x = y \<and> is_prefix xs ys)"

text \<open>\<open>contains sub s\<close> is Python's \<^verbatim>\<open>sub in s\<close> on strings.\<close>

fun contains :: "'a list \<Rightarrow> 'a list \<Rightarrow> bool" where
  "contains sub [] = (sub = [])"
| "contains sub (y # ys) = (is_prefix sub (y # ys) \<or> contains sub ys)"

text \<open>
  A dict literal is an association list in insertion order, which is the order in which
  Python iterates over it. \<open>first_match d s\<close> is the loop
  \<^verbatim>\<open>for key, v in d.items(): if key in s: return v\<close>, with \<open>None\<close> for falling through.
\<close>

type_synonym 'v dict = "(string \<times> 'v) list"

definition dict_has :: "'v dict \<Rightarrow> string \<Rightarrow> bool" where
  "dict_has d k = (map_of d k \<noteq> None)"

definition dict_getitem :: "'v dict \<Rightarrow> string \<Rightarrow> 'v result" where
  "dict_getitem d k =
     (case map_of d k of None \<Rightarrow> Inl (KeyError k) | Some v \<Rightarrow> Inr v)"

fun first_match :: "'v dict \<Rightarrow> string \<Rightarrow> 'v option" where
  "first_match [] s = None"
| "first_match ((key, v) # d) s = (if contains key s then Some v else first_match d s)"

text \<open>\<open>any_in ws s\<close> is \<^verbatim>\<open>any(word in s for word in ws)\<close>.\<close>

fun any_in :: "string list \<Rightarrow> string \<Rightarrow> bool" where
  "any_in [] s = False"
| "any_in (word # ws) s = (contains word s \<or> any_in ws s)"

text \<open>\<open>slice_last k xs\<close> is the slice \<^verbatim>\<open>xs[-k:]\<close> for an integer \<open>k\<close>: the last
  \<open>k\<close> elements when \<open>k > 0\<close>, the whole list when \<open>k = 0\<close> (\<^verbatim>\<open>xs[-0:]\<close> is
  \<^verbatim>\<open>xs[0:]\<close>), and the list without its first \<open>-k\<close> elements when \<open>k < 0\<close>.\<close>

definition slice_last :: "int \<Rightarrow> 'a list \<Rightarrow> 'a list" where
  "slice_last k xs =
     (if 0 < k then drop (length xs - nat k) xs else drop (nat (- k)) xs)"

subsection \<open>UTF-8 and character counting\<close>

definition utf8 :: "nat \<Rightarrow> string" where
  "utf8 cp =
     (if cp < 0x80 then [char_of cp]
      else if cp < 0x800 then
        [char_of (0xC0 + cp div 0x40), char_of (0x80 + cp mod 0x40)]
      else if cp < 0x10000 then
        [char_of (0xE0 + cp div 0x1000), char_of (0x80 + cp div 0x40 mod 0x40),
         char_of (0x80 + cp mod 0x40)]
      else
        [char_of (0xF0 + cp div 0x40000), char_of (0x80 + cp div 0x1000 mod 0x40),
         char_of (0x80 + cp div 0x40 mod 0x40), char_of (0x80 + cp mod 0x40)])"

definition is_continuation :: "char \<Rightarrow> bool" where
  "is_continuation c = ((of_char c :: nat) div 0x40 = 2)"

text \<open>\<open>str_prefix n s\<close> is \<^verbatim>\<open>s[:n]\<close> for \<open>n \<ge> 0\<close>: the first \<open>n\<close> code points,
  each taken with its continuation bytes.\<close>

fun str_prefix :: "nat \<Rightarrow> string \<Rightarrow> string" where
  "str_prefix 0 s = []"
| "str_prefix (Suc n) [] = []"
| "str_prefix (Suc n) (c # cs) =
     c # takeWhile is_continuation cs @ str_prefix n (dropWhile is_continuation cs)"

subsection \<open>What the code takes from outside\<close>

text \<open>
  \<open>env\<close> holds what the code reads and never changes: the constant
  \<^verbatim>\<open>config.MAX_CONVERSATION_LENGTH\<close> and the two \<^verbatim>\<open>str\<close> methods of the Python
  runtime it calls, \<^verbatim>\<open>str.lower\<close> and \<^verbatim>\<open>str.strip\<close>, whose Unicode tables are not
  part of the repository. The general properties below hold for every \<open>env\<close>;
  \<open>shipped\<close> is the configuration of \<^verbatim>\<open>config.py\<close> with the two methods as they act
  on ASCII text, and the properties of one given ASCII message are stated for it.
\<close>

record env =
  MAX_CONVERSATION_LENGTH :: int
  lower :: "string \<Rightarrow> string"
  strip :: "string \<Rightarrow> string"

definition ascii_lower_char :: "char \<Rightarrow> char" where
  "ascii_lower_char c =
     (let n = (of_char c :: nat) in if 65 \<le> n \<and> n \<le> 90 then char_of (n + 32) else c)"

definition ascii_space :: "char \<Rightarrow> bool" where
  "ascii_space c =
     (let n = (of_char c :: nat) in n = 32 \<or> (9 \<le> n \<and> n \<le> 13) \<or> (28 \<le> n \<and> n \<le> 31))"

definition ascii_strip :: "string \<Rightarrow> string" where
  "ascii_strip s = rev (dropWhile ascii_space (rev (dropWhile ascii_space s)))"

definition shipped :: env where
  "shipped = \<lparr>MAX_CONVERSATION_LENGTH = 50, lower = map ascii_lower_char, strip = ascii_strip\<rparr>"

subsection \<open>Randomness, the clock and the call log\<close>

text \<open>
  \<open>world\<close> is what changes outside the objects of the program: the pseudo-random
  generator and the clock, each an arbitrary stream read at position \<open>tick\<close>, and
  \<open>calls\<close>, the log of the methods entered so far, in order. The log is the
  observation by which a property says that a method is or is not invoked; the code does
  not read it. Output written with \<^verbatim>\<open>print\<close> and the duration of \<^verbatim>\<open>time.sleep\<close>
  are not modelled.
\<close>

record world =
  tick :: nat
  random_src :: "nat \<Rightarrow> rat"
  randbelow_src :: "nat \<Rightarrow> nat"
  clock_src :: "nat \<Rightarrow> rat"
  calls :: "string list"

definition advance :: "world \<Rightarrow> world" where
  "advance w = w\<lparr>tick := Suc (tick w)\<rparr>"

definition enter :: "string \<Rightarrow> world \<Rightarrow> world" where
  "enter name w = w\<lparr>calls := calls w @ [name]\<rparr>"

text \<open>\<^verbatim>\<open>random.uniform(a, b)\<close> is \<^verbatim>\<open>a + (b - a) * random()\<close>.\<close>

definition random_uniform :: "rat \<Rightarrow> rat \<Rightarrow> world \<Rightarrow> rat \<times> world" where
  "random_uniform a b w = (a + (b - a) * random_src w (tick w), advance w)"

definition randbelow :: "nat \<Rightarrow> world \<Rightarrow> nat \<times> world" where
  "randbelow n w = (randbelow_src w (tick w) mod n, advance w)"

definition random_choice :: "'a list \<Rightarrow> world \<Rightarrow> 'a result \<times> world" where
  "random_choice seq w =
     (if seq = [] then (Inl (IndexError ''Cannot choose from an empty sequence''), w)
      else (let (k, w1) = randbelow (length seq) w in (Inr (seq ! k), w1)))"

definition random_randint :: "int \<Rightarrow> int \<Rightarrow> world \<Rightarrow> int \<times> world" where
  "random_randint a b w = (let (k, w1) = randbelow (nat (b - a + 1)) w in (a + int k, w1))"

text \<open>\<^verbatim>\<open>datetime.now()\<close>, as seconds on the clock.\<close>

definition datetime_now :: "world \<Rightarrow> rat \<times> world" where
  "datetime_now w = (clock_src w (tick w), advance w)"

subsection \<open>Arithmetic and formatting\<close>

definition py_truediv :: "rat \<Rightarrow> rat \<Rightarrow> rat result" where
  "py_truediv a b = (if b = 0 then Inl ZeroDivisionError else Inr (a / b))"

definition list_first :: "'a list \<Rightarrow> 'a result" where
  "list_first xs =
     (case xs of [] \<Rightarrow> Inl (IndexError ''list index out of range'') | x # _ \<Rightarrow> Inr x)"

definition list_last :: "'a list \<Rightarrow> 'a result" where
  "list_last xs =
     (if xs = [] then Inl (IndexError ''list index out of range'') else Inr (last xs))"

definition py_max :: "rat list \<Rightarrow> rat result" where
  "py_max xs =
     (case xs of [] \<Rightarrow> Inl (ValueError ''max() arg is an empty sequence'')
      | x # ys \<Rightarrow> Inr (fold max ys x))"

definition py_min :: "rat list \<Rightarrow> rat result" where
  "py_min xs =
     (case xs of [] \<Rightarrow> Inl (ValueError ''min() arg is an empty sequence'')
      | x # ys \<Rightarrow> Inr (fold min ys x))"

definition dict_get :: "'v dict \<Rightarrow> string \<Rightarrow> 'v \<Rightarrow> 'v" where
  "dict_get d k dflt = (case map_of d k of None \<Rightarrow> dflt | Some v \<Rightarrow> v)"

definition digit_char :: "nat \<Rightarrow> char" where
  "digit_char n = ''0123456789'' ! n"

function str_nat :: "nat \<Rightarrow> string" where
  "str_nat n = (if n < 10 then [digit_char n] else str_nat (n div 10) @ [digit_char (n mod 10)])"
  by pat_completeness auto
termination
  by (relation "measure id") auto

declare str_nat.simps [simp del]

definition str_int :: "int \<Rightarrow> string" where
  "str_int i = (if i < 0 then ''-'' @ str_nat (nat (- i)) else str_nat (nat i))"

definition round_half_even :: "rat \<Rightarrow> int" where
  "round_half_even x =
     (let f = \<lfloor>x\<rfloor>; d = x - of_int f
      in if d < 1 / 2 then f else if 1 / 2 < d then f + 1 else if even f then f else f + 1)"

text \<open>
  IEEE 754 binary64, the \<^verbatim>\<open>float\<close> of CPython. For \<open>x > 0\<close>, \<open>binary_exponent x\<close> is
  the \<open>e\<close> with \<open>2\<^sup>e \<le> x < 2\<^sup>e\<^sup>+\<^sup>1\<close> (lemma \<open>binary_exponent_bounds\<close>), and
  \<open>double_round x\<close> is the double nearest to \<open>x\<close>, ties to the even significand: 53
  significant bits, the exponent not below that of the subnormal numbers. A result
  beyond the largest double would be an infinity, which the model does not have.
\<close>

function log2_floor :: "nat \<Rightarrow> nat" where
  "log2_floor n = (if n < 2 then 0 else Suc (log2_floor (n div 2)))"
  by pat_completeness auto
termination
  by (relation "measure id") auto

declare log2_floor.simps [simp del]

definition binary_exponent :: "rat \<Rightarrow> int" where
  "binary_exponent x =
     (if 1 \<le> x then int (log2_floor (nat \<lfloor>x\<rfloor>))
      else - int (Suc (log2_floor (nat \<lceil>1 / x\<rceil> - 1))))"

definition double_round :: "rat \<Rightarrow> rat" where
  "double_round x =
     (if x = 0 then 0
      else (let e = max (binary_exponent \<bar>x\<bar>) (- 1022);
                ulp = 2 powi (e - 52)
            in sgn x * of_int (round_half_even (\<bar>x\<bar> / ulp)) * ulp))"

text \<open>\<open>py_float q\<close>: the float that the decimal literal \<open>q\<close> denotes in Python source;
  \<open>float_mul a b\<close>: the product \<^verbatim>\<open>a * b\<close> of two floats.\<close>

definition py_float :: "rat \<Rightarrow> rat" where
  "py_float q = double_round q"

definition float_mul :: "rat \<Rightarrow> rat \<Rightarrow> rat" where
  "float_mul a b = double_round (a * b)"

text \<open>
  \<open>fmt_fixed d x\<close> is the format \<^verbatim>\<open>{x:.df}\<close>: \<open>d\<close> digits after the point, the exact
  value of \<open>x\<close> rounded half to even. \<open>fmt_percent d x\<close> is \<^verbatim>\<open>{x:.d%}\<close>: CPython
  multiplies the float by 100 as a float, formats the product as \<^verbatim>\<open>f\<close> and adds the sign.
\<close>

definition fmt_fixed :: "nat \<Rightarrow> rat \<Rightarrow> string" where
  "fmt_fixed d x =
     (let n = nat (round_half_even (\<bar>x\<bar> * 10 ^ d));
          ip = str_nat (n div 10 ^ d);
          fp = str_nat (n mod 10 ^ d)
      in (if x < 0 then ''-'' else []) @ ip @
         (if d = 0 then [] else ''.'' @ replicate (d - length fp) (CHR ''0'') @ fp))"

definition fmt_percent :: "nat \<Rightarrow> rat \<Rightarrow> string" where
  "fmt_percent d x = fmt_fixed d (float_mul x 100) @ ''%''"

fun str_join :: "string \<Rightarrow> string list \<Rightarrow> string" where
  "str_join sep [] = []"
| "str_join sep [x] = x"
| "str_join sep (x # y # ys) = x @ sep @ str_join sep (y # ys)"

text \<open>\<^verbatim>\<open>str(e)\<close> of an exception (\<^verbatim>\<open>HTTPException\<close> as Starlette prints it).\<close>

fun str_exn :: "exn \<Rightarrow> string" where
  "str_exn (AttributeError t a) =
     [CHR 0x27] @ t @ [CHR 0x27] @ '' object has no attribute '' @ [CHR 0x27] @ a @ [CHR 0x27]"
| "str_exn (KeyError k) = [CHR 0x27] @ k @ [CHR 0x27]"
| "str_exn (IndexError m) = m"
| "str_exn ZeroDivisionError = ''division by zero''"
| "str_exn (ValueError m) = m"
| "str_exn (HTTPException status detail) = str_nat status @ '': '' @ detail"

text \<open>\<^verbatim>\<open>v.lower()\<close> on an untyped value: only a \<^verbatim>\<open>str\<close> has the method.\<close>

definition str_lower :: "env \<Rightarrow> pyval \<Rightarrow> string result" where
  "str_lower E v =
     (case v of PStr t \<Rightarrow> Inr (lower E t) | _ \<Rightarrow> Inl (AttributeError (type_name v) ''lower''))"

section \<open>The numeric collaborator (ml_engine.py)\<close>

record datapoint =
  dp_day :: int
  dp_value :: rat
  dp_day_of_week :: int
  dp_month :: int
  dp_is_weekend :: int

text \<open>
  The attributes of \<^verbatim>\<open>MLEngine\<close>. \<open>historical_data\<close> is filled by the constructor
  from \<^verbatim>\<open>generate_sample_data\<close> (365 points built with \<^verbatim>\<open>math.sin\<close> and random
  noise); here it is any list, the functions below only read it.
\<close>

record MLEngine =
  model_name :: string
  is_trained :: bool
  last_training_time :: "rat option"
  model_data :: "rat dict"
  historical_data :: "datapoint list"

text \<open>The constructor, with the generated sample data as its argument.\<close>

definition MLEngine_init :: "datapoint list \<Rightarrow> MLEngine" where
  "MLEngine_init sample_data =
     \<lparr>model_name = ''SimulatedML_v1'', is_trained = False, last_training_time = None,
      model_data = [], historical_data = sample_data\<rparr>"

text \<open>The dicts the three operations return, one record per dict, fields in key order.\<close>

record training_result =
  t_model_name :: string
  t_score :: rat
  t_mae :: rat
  t_training_time :: rat
  t_improvement :: rat

record prediction_result =
  p_prediction :: rat
  p_predictions_detail :: "rat list"
  p_confidence :: rat
  p_model_name :: string
  p_accuracy :: rat
  p_mae :: rat
  p_dates :: "rat list"

record analysis_result =
  a_trend :: string
  a_correlations :: "string list"
  a_anomalies :: int
  a_insights :: string
  a_data_points :: int
  a_date_range :: string

text \<open>
  Every method takes the world and its object and returns its result (\<open>Inl\<close> for a
  raised exception) with the world and the object as it leaves them.
\<close>

definition train_model :: "world \<Rightarrow> MLEngine \<Rightarrow> training_result result \<times> MLEngine \<times> world" where
  "train_model w0 self =
     (let w = enter ''train_model'' w0;
          (start_time, w1) = datetime_now w;
          (delay, w2) = random_uniform (2 / 10) (8 / 10) w1
      in case py_truediv (sum_list (map dp_value (historical_data self)))
                (of_nat (length (historical_data self))) of
           Inl e \<Rightarrow> (Inl e, self, w2)
         | Inr mean_value \<Rightarrow>
             (let (trend_slope, w3) = random_uniform (5 / 100) (15 / 100) w2;
                  (seasonal_amplitude, w4) = random_uniform 15 25 w3;
                  (noise_level, w5) = random_uniform 5 15 w4;
                  self1 = self\<lparr>model_data :=
                    [(''mean_value'', mean_value), (''trend_slope'', trend_slope),
                     (''seasonal_amplitude'', seasonal_amplitude),
                     (''noise_level'', noise_level)]\<rparr>;
                  self2 = self1\<lparr>is_trained := True\<rparr>;
                  (now1, w6) = datetime_now w5;
                  self3 = self2\<lparr>last_training_time := Some now1\<rparr>;
                  (now2, w7) = datetime_now w6;
                  training_time = now2 - start_time;
                  (score, w8) = random_uniform (85 / 100) (95 / 100) w7;
                  (mae, w9) = random_uniform 8 15 w8;
                  (improvement, w10) = random_uniform (2 / 100) (8 / 100) w9
              in (Inr \<lparr>t_model_name = model_name self3, t_score = score, t_mae = mae,
                        t_training_time = training_time, t_improvement = improvement\<rparr>,
                  self3, w10)))"

text \<open>The loop \<^verbatim>\<open>for i in range(n_days)\<close> of \<^verbatim>\<open>predict_next_values\<close>.\<close>

fun predict_loop ::
  "MLEngine \<Rightarrow> rat \<Rightarrow> nat list \<Rightarrow> rat list \<Rightarrow> world \<Rightarrow> rat list result \<times> world" where
  "predict_loop self last_value [] predictions w = (Inr predictions, w)"
| "predict_loop self last_value (i # rest) predictions w =
     (case dict_getitem (model_data self) ''trend_slope'' of
        Inl e \<Rightarrow> (Inl e, w)
      | Inr slope \<Rightarrow>
          (let trend = slope * of_nat i;
               (variation, w1) = random_uniform (- 5) 5 w;
               predicted_value = last_value + trend + variation
           in predict_loop self last_value rest (predictions @ [max 0 predicted_value]) w1))"

text \<open>
  The comprehension that builds \<^verbatim>\<open>dates\<close>: one reading of the clock per day. A date
  is kept as its point on the clock (86400 seconds a day), not as the text
  \<^verbatim>\<open>strftime\<close> makes of it.
\<close>

fun dates_loop :: "nat list \<Rightarrow> world \<Rightarrow> rat list \<times> world" where
  "dates_loop [] w = ([], w)"
| "dates_loop (i # rest) w =
     (let (now, w1) = datetime_now w;
          (ds, w2) = dates_loop rest w1
      in ((now + of_nat i * 86400) # ds, w2))"

text \<open>The body of \<^verbatim>\<open>predict_next_values\<close> after its training guard.\<close>

definition predict_body ::
  "world \<Rightarrow> MLEngine \<Rightarrow> int \<Rightarrow> prediction_result result \<times> MLEngine \<times> world" where
  "predict_body w self n_days =
     (case list_last (historical_data self) of
        Inl e \<Rightarrow> (Inl e, self, w)
      | Inr d \<Rightarrow>
          (case predict_loop self (dp_value d) [0..<nat n_days] [] w of
             (Inl e, w1) \<Rightarrow> (Inl e, self, w1)
           | (Inr predictions, w1) \<Rightarrow>
               (case py_truediv (sum_list predictions) (of_nat (length predictions)) of
                  Inl e \<Rightarrow> (Inl e, self, w1)
                | Inr avg_prediction \<Rightarrow>
                    (let (confidence, w2) = random_uniform (85 / 100) (95 / 100) w1;
                         (accuracy, w3) = random_uniform (92 / 100) (98 / 100) w2;
                         (mae, w4) = random_uniform 5 12 w3;
                         (dates, w5) = dates_loop [1..<nat (n_days + 1)] w4
                     in (Inr \<lparr>p_prediction = avg_prediction,
                               p_predictions_detail = predictions,
                               p_confidence = confidence, p_model_name = model_name self,
                               p_accuracy = accuracy, p_mae = mae, p_dates = dates\<rparr>,
                         self, w5)))))"

definition predict_next_values ::
  "world \<Rightarrow> MLEngine \<Rightarrow> int \<Rightarrow> prediction_result result \<times> MLEngine \<times> world" where
  "predict_next_values w0 self n_days =
     (let w = enter ''predict_next_values'' w0
      in if \<not> is_trained self then
           (case train_model w self of
              (Inl e, self1, w1) \<Rightarrow> (Inl e, self1, w1)
            | (Inr _, self1, w1) \<Rightarrow> predict_body w1 self1 n_days)
         else predict_body w self n_days)"

text \<open>The f-string of \<^verbatim>\<open>analyze_data\<close>, before \<^verbatim>\<open>.strip()\<close>.\<close>

definition insights_text :: "MLEngine \<Rightarrow> rat \<Rightarrow> rat \<Rightarrow> rat \<Rightarrow> string" where
  "insights_text self avg_value max_value min_value =
     ''\<newline>''
     @ ''        '' @ utf8 0x2022 @ '' Average value: '' @ fmt_fixed 1 avg_value
     @ ''\<newline>''
     @ ''        '' @ utf8 0x2022 @ '' Peak maximum: '' @ fmt_fixed 1 max_value
     @ ''\<newline>''
     @ ''        '' @ utf8 0x2022 @ '' Minimum value: '' @ fmt_fixed 1 min_value
     @ ''\<newline>''
     @ ''        '' @ utf8 0x2022 @ '' Volatility: ''
     @ (if max_value - min_value > 50 then ''High'' else ''Moderate'') @ ''\<newline>''
     @ ''        '' @ utf8 0x2022 @ '' Seasonal pattern detected with amplitude ~''
     @ fmt_fixed 1 (dict_get (model_data self) ''seasonal_amplitude'' 20) @ ''\<newline>''
     @ ''        ''"

definition analyze_data ::
  "env \<Rightarrow> world \<Rightarrow> MLEngine \<Rightarrow> analysis_result result \<times> MLEngine \<times> world" where
  "analyze_data E w0 self =
     (let w = enter ''analyze_data'' w0;
          vals = map dp_value (historical_data self);
          recent_values = slice_last 30 vals
      in case list_last recent_values of
           Inl e \<Rightarrow> (Inl e, self, w)
         | Inr recent_last \<Rightarrow>
         (case list_first recent_values of
            Inl e \<Rightarrow> (Inl e, self, w)
          | Inr recent_first \<Rightarrow>
          (let trend = (if recent_last > recent_first then ''Increasing'' else ''Decreasing'');
               correlations = [''day_of_week (0.45)'', ''month (0.38)'', ''is_weekend (0.32)''];
               (anomalies, w1) = random_randint 2 8 w
           in case py_truediv (sum_list vals) (of_nat (length vals)) of
                Inl e \<Rightarrow> (Inl e, self, w1)
              | Inr avg_value \<Rightarrow>
              (case py_max vals of
                 Inl e \<Rightarrow> (Inl e, self, w1)
               | Inr max_value \<Rightarrow>
               (case py_min vals of
                  Inl e \<Rightarrow> (Inl e, self, w1)
                | Inr min_value \<Rightarrow>
                    (Inr \<lparr>a_trend = trend, a_correlations = correlations,
                          a_anomalies = anomalies,
                          a_insights = strip E (insights_text self avg_value max_value min_value),
                          a_data_points = int (length (historical_data self)),
                          a_date_range = ''365 simulated days''\<rparr>,
                     self, w1))))))"

section \<open>Conversation session (chatbot.py)\<close>

record message =
  role :: string
  content :: pyval

text \<open>
  The attributes of \<^verbatim>\<open>ChatbotEngine\<close>. Its third attribute,
  \<^verbatim>\<open>simulation_responses\<close>, is assigned once in the constructor and only read, so it is
  the constant below.
\<close>

record ChatbotEngine =
  ml_engine :: MLEngine
  conversation_history :: "message list"

definition simulation_responses :: "string list dict" where
  "simulation_responses =
   [(''greeting'',
     [''Hello! '' @ utf8 0x1F44B
        @ '' I'm your AI-powered predictive assistant! How can I help you today?'',
      ''Hi there! '' @ utf8 0x1F916 @ '' Ready to explore data predictions together?'',
      ''Welcome! I'm here to help with ML analysis and predictions!'']),
    (''prediction'',
     [utf8 0x1F52E @ '' Analyzing your data and generating predictions...'',
      utf8 0x1F4CA @ '' Running prediction algorithms...'',
      utf8 0x1F3AF @ '' Forecasting based on detected patterns...'']),
    (''training'',
     [utf8 0x1F916 @ '' Initiating model training process...'',
      utf8 0x1F9E0 @ '' Optimizing hyperparameters...'',
      utf8 0x26A1 @ '' The model is learning from your data...'']),
    (''analysis'',
     [utf8 0x1F4C8 @ '' Analyzing trends in progress...'',
      utf8 0x1F50D @ '' Searching for patterns in the dataset...'',
      utf8 0x1F4CA @ '' Generating comprehensive analysis report...'']),
    (''general'',
     [''Interesting! I can help you with that using my ML capabilities.'',
      ''Great question! Let me process that with my predictive algorithms.'',
      ''I'll analyze your request using my advanced ML models!''])]"

definition ChatbotEngine_init :: "datapoint list \<Rightarrow> ChatbotEngine" where
  "ChatbotEngine_init sample_data =
     \<lparr>ml_engine = MLEngine_init sample_data, conversation_history = []\<rparr>"

definition add_message ::
  "env \<Rightarrow> world \<Rightarrow> ChatbotEngine \<Rightarrow> string \<Rightarrow> pyval \<Rightarrow> ChatbotEngine \<times> world" where
  "add_message E w self r c =
     (let h = conversation_history self @ [\<lparr>role = r, content = c\<rparr>]
      in (self\<lparr>conversation_history :=
             (if MAX_CONVERSATION_LENGTH E < int (length h)
              then slice_last (MAX_CONVERSATION_LENGTH E) h else h)\<rparr>,
          enter ''add_message'' w))"

definition get_conversation_history :: "ChatbotEngine \<Rightarrow> message list \<times> ChatbotEngine" where
  "get_conversation_history self = (conversation_history self, self)"

definition clear_conversation :: "ChatbotEngine \<Rightarrow> ChatbotEngine" where
  "clear_conversation self = self\<lparr>conversation_history := []\<rparr>"

text \<open>A run of \<^verbatim>\<open>add_message\<close> calls, one per (role, content) pair, in order.\<close>

fun add_messages ::
  "env \<Rightarrow> world \<Rightarrow> ChatbotEngine \<Rightarrow> (string \<times> pyval) list \<Rightarrow> ChatbotEngine \<times> world" where
  "add_messages E w self [] = (self, w)"
| "add_messages E w self ((r, c) # ms) =
     (let (self1, w1) = add_message E w self r c in add_messages E w1 self1 ms)"

section \<open>Intent classifier and instant-response cache (chatbot.py)\<close>

definition ml_keywords :: "string dict" where
  "ml_keywords =
   [(''predict'', ''prediction''), (''forecast'', ''prediction''),
    (''prediction'', ''prediction''), (''future'', ''prediction''),
    (''tomorrow'', ''prediction''), (''next'', ''prediction''),
    (''train'', ''training''), (''training'', ''training''), (''learn'', ''training''),
    (''model'', ''training''), (''optimize'', ''training''),
    (''analyze'', ''analysis''), (''analysis'', ''analysis''), (''trend'', ''analysis''),
    (''pattern'', ''analysis''), (''insight'', ''analysis''), (''data'', ''analysis''),
    (''hello'', ''greeting''), (''hi'', ''greeting''), (''hey'', ''greeting''),
    (''good'', ''greeting'')]"

record intent_result =
  intent :: string
  confidence :: rat

definition detect_ml_intent ::
  "env \<Rightarrow> world \<Rightarrow> ChatbotEngine \<Rightarrow> pyval \<Rightarrow> intent_result result \<times> ChatbotEngine \<times> world" where
  "detect_ml_intent E w0 self user_message =
     (let w = enter ''detect_ml_intent'' w0
      in case str_lower E user_message of
           Inl e \<Rightarrow> (Inl e, self, w)
         | Inr user_lower \<Rightarrow>
             (case first_match ml_keywords user_lower of
                Some i \<Rightarrow> (Inr \<lparr>intent = i, confidence = 8 / 10\<rparr>, self, w)
              | None \<Rightarrow> (Inr \<lparr>intent = ''general'', confidence = 9 / 10\<rparr>, self, w)))"

definition instant_cache :: "string dict" where
  "instant_cache =
   [(''hello'', ''Hello! '' @ utf8 0x1F44B
        @ '' I'm your AI-powered predictive assistant! Ready for instant predictions?''),
    (''hi'', ''Hi there! '' @ utf8 0x1F916 @ '' Ready to explore data predictions together?''),
    (''hey'', ''Hey! '' @ utf8 0x26A1 @ '' Fast predictions at your service!''),
    (''status'',
     utf8 0x2705 @ '' **System Status:** All operational | Models: Ready | Response: ''
       @ utf8 0x26A1 @ '' Instant''),
    (''help'', utf8 0x1F4A1
       @ '' **Quick Commands:** predict, train, analyze, status | What do you need?''),
    (''test'', utf8 0x1F9EA @ '' **Test Successful!** All systems running at optimal speed ''
       @ utf8 0x26A1),
    (''speed'', utf8 0x26A1 @ '' **Ultra-Fast Mode Activated!** Response time: <100ms'')]"

definition lightning_reply :: string where
  "lightning_reply =
     utf8 0x26A1
     @ '' **Lightning Speed Activated!** Ready for instant ML predictions and analysis!''"

text \<open>The result is \<open>Some reply\<close>, or \<open>None\<close> for Python's \<^verbatim>\<open>None\<close>.\<close>

definition get_instant_response ::
  "env \<Rightarrow> world \<Rightarrow> ChatbotEngine \<Rightarrow> pyval \<Rightarrow> string option result \<times> ChatbotEngine \<times> world" where
  "get_instant_response E w0 self message =
     (let w = enter ''get_instant_response'' w0
      in case str_lower E message of
           Inl e \<Rightarrow> (Inl e, self, w)
         | Inr lowered \<Rightarrow>
             (let msg_lower = strip E lowered
              in if dict_has instant_cache msg_lower then
                   (case dict_getitem instant_cache msg_lower of
                      Inl e \<Rightarrow> (Inl e, self, w)
                    | Inr response \<Rightarrow> (Inr (Some response), self, w))
                 else
                   (case first_match instant_cache msg_lower of
                      Some response \<Rightarrow> (Inr (Some response), self, w)
                    | None \<Rightarrow>
                        if any_in [''quick'', ''fast'', ''rapid'', ''instant''] msg_lower
                        then (Inr (Some lightning_reply), self, w)
                        else (Inr None, self, w))))"

definition simulate_typing_delay :: "world \<Rightarrow> ChatbotEngine \<Rightarrow> ChatbotEngine \<times> world" where
  "simulate_typing_delay w0 self =
     (let w = enter ''simulate_typing_delay'' w0;
          (delay, w1) = random_uniform (1 / 10) (3 / 10) w
      in (self, w1))"

section \<open>Response composer (chatbot.py)\<close>

definition handle_greeting ::
  "env \<Rightarrow> world \<Rightarrow> ChatbotEngine \<Rightarrow> string result \<times> ChatbotEngine \<times> world" where
  "handle_greeting E w0 self =
     (let w = enter ''handle_greeting'' w0
      in case dict_getitem simulation_responses ''greeting'' of
           Inl e \<Rightarrow> (Inl e, self, w)
         | Inr templates \<Rightarrow>
             (case random_choice templates w of
                (Inl e, w1) \<Rightarrow> (Inl e, self, w1)
              | (Inr response, w1) \<Rightarrow>
                  (let (self1, w2) = add_message E w1 self ''assistant'' (PStr response)
                   in (Inr response, self1, w2))))"

definition prediction_response :: "string \<Rightarrow> prediction_result \<Rightarrow> string" where
  "prediction_response intro r =
     intro @ ''\<newline>''
     @ ''\<newline>''
     @ utf8 0x1F52E @ '' **Prediction Generated Successfully!**\<newline>''
     @ ''\<newline>''
     @ ''**Average Forecast**: '' @ fmt_fixed 2 (p_prediction r) @ ''\<newline>''
     @ ''**Confidence Level**: '' @ fmt_percent 1 (p_confidence r) @ ''\<newline>''
     @ ''**Model Used**: '' @ p_model_name r @ ''\<newline>''
     @ ''\<newline>''
     @ utf8 0x1F4CA @ '' **Model Performance Metrics**:\<newline>''
     @ utf8 0x2022 @ '' Accuracy: '' @ fmt_percent 1 (p_accuracy r) @ ''\<newline>''
     @ utf8 0x2022 @ '' Mean Absolute Error: '' @ fmt_fixed 2 (p_mae r) @ ''\<newline>''
     @ ''\<newline>''
     @ utf8 0x1F4A1 @ '' **Key Insight**: The trend appears ''
     @ (if p_prediction r > 150 then ''positive'' else ''stable'')
     @ '' based on historical patterns.\<newline>''
     @ ''\<newline>''
     @ ''Would you like me to explain the methodology or generate additional forecasts?''"

text \<open>The \<^verbatim>\<open>try\<close> block of \<^verbatim>\<open>handle_prediction_request\<close>.\<close>

definition prediction_try ::
  "env \<Rightarrow> world \<Rightarrow> ChatbotEngine \<Rightarrow> string result \<times> ChatbotEngine \<times> world" where
  "prediction_try E w self =
     (case dict_getitem simulation_responses ''prediction'' of
        Inl e \<Rightarrow> (Inl e, self, w)
      | Inr templates \<Rightarrow>
          (case random_choice templates w of
             (Inl e, w1) \<Rightarrow> (Inl e, self, w1)
           | (Inr intro, w1) \<Rightarrow>
               (case predict_next_values w1 (ml_engine self) 7 of
                  (Inl e, ml1, w2) \<Rightarrow> (Inl e, self\<lparr>ml_engine := ml1\<rparr>, w2)
                | (Inr r, ml1, w2) \<Rightarrow>
                    (let response = prediction_response intro r;
                         (self1, w3) = add_message E w2 (self\<lparr>ml_engine := ml1\<rparr>)
                                         ''assistant'' (PStr response)
                     in (Inr response, self1, w3)))))"

definition handle_prediction_request ::
  "env \<Rightarrow> world \<Rightarrow> ChatbotEngine \<Rightarrow> pyval \<Rightarrow> string result \<times> ChatbotEngine \<times> world" where
  "handle_prediction_request E w0 self user_message =
     (case prediction_try E (enter ''handle_prediction_request'' w0) self of
        (Inr response, self1, w1) \<Rightarrow> (Inr response, self1, w1)
      | (Inl e, self1, w1) \<Rightarrow>
          (let error_msg = utf8 0x274C @ '' Error during prediction: '' @ str_exn e;
               (self2, w2) = add_message E w1 self1 ''assistant'' (PStr error_msg)
           in (Inr error_msg, self2, w2)))"

definition training_response :: "string \<Rightarrow> training_result \<Rightarrow> string" where
  "training_response intro r =
     intro @ ''\<newline>''
     @ ''\<newline>''
     @ utf8 0x1F916 @ '' **Model Training Completed Successfully!**\<newline>''
     @ ''\<newline>''
     @ ''**New Model**: '' @ t_model_name r @ ''\<newline>''
     @ ''**Performance Score**: '' @ fmt_percent 1 (t_score r) @ ''\<newline>''
     @ ''**Training Duration**: '' @ fmt_fixed 1 (t_training_time r)
     @ '' seconds\<newline>''
     @ ''\<newline>''
     @ utf8 0x1F4C8 @ '' **Performance Improvements**:\<newline>''
     @ utf8 0x2022 @ '' Accuracy: +'' @ fmt_percent 1 (t_improvement r)
     @ '' vs previous model\<newline>''
     @ utf8 0x2022 @ '' Overfitting: Well controlled '' @ utf8 0x2705 @ ''\<newline>''
     @ utf8 0x2022 @ '' Convergence: Optimal '' @ utf8 0x2705 @ ''\<newline>''
     @ ''\<newline>''
     @ utf8 0x1F680
     @ '' **The model is now ready for ultra-precise predictions!**\<newline>''
     @ ''\<newline>''
     @ ''You can now ask me for predictions using this newly trained model!''"

text \<open>The \<^verbatim>\<open>try\<close> block of \<^verbatim>\<open>handle_training_request\<close>.\<close>

definition training_try ::
  "env \<Rightarrow> world \<Rightarrow> ChatbotEngine \<Rightarrow> string result \<times> ChatbotEngine \<times> world" where
  "training_try E w self =
     (case dict_getitem simulation_responses ''training'' of
        Inl e \<Rightarrow> (Inl e, self, w)
      | Inr templates \<Rightarrow>
          (case random_choice templates w of
             (Inl e, w1) \<Rightarrow> (Inl e, self, w1)
           | (Inr intro, w1) \<Rightarrow>
               (case train_model w1 (ml_engine self) of
                  (Inl e, ml1, w2) \<Rightarrow> (Inl e, self\<lparr>ml_engine := ml1\<rparr>, w2)
                | (Inr r, ml1, w2) \<Rightarrow>
                    (let response = training_response intro r;
                         (self1, w3) = add_message E w2 (self\<lparr>ml_engine := ml1\<rparr>)
                                         ''assistant'' (PStr response)
                     in (Inr response, self1, w3)))))"

definition handle_training_request ::
  "env \<Rightarrow> world \<Rightarrow> ChatbotEngine \<Rightarrow> pyval \<Rightarrow> string result \<times> ChatbotEngine \<times> world" where
  "handle_training_request E w0 self user_message =
     (case training_try E (enter ''handle_training_request'' w0) self of
        (Inr response, self1, w1) \<Rightarrow> (Inr response, self1, w1)
      | (Inl e, self1, w1) \<Rightarrow>
          (let error_msg = utf8 0x274C @ '' Error during training: '' @ str_exn e;
               (self2, w2) = add_message E w1 self1 ''assistant'' (PStr error_msg)
           in (Inr error_msg, self2, w2)))"

definition analysis_response :: "string \<Rightarrow> analysis_result \<Rightarrow> string" where
  "analysis_response intro r =
     intro @ ''\<newline>''
     @ ''\<newline>''
     @ utf8 0x1F4CA @ '' **Comprehensive Data Analysis Complete**\<newline>''
     @ ''\<newline>''
     @ ''**'' @ utf8 0x1F4C8 @ '' Overall Trend**: '' @ a_trend r @ ''\<newline>''
     @ ''**'' @ utf8 0x1F517 @ '' Strong Correlations**: ''
     @ str_join '', '' (a_correlations r) @ ''\<newline>''
     @ ''**'' @ utf8 0x26A0 @ utf8 0xFE0F @ '' Anomalies Detected**: ''
     @ str_int (a_anomalies r) @ '' suspicious data points\<newline>''
     @ ''**'' @ utf8 0x1F4CA @ '' Dataset Volume**: '' @ str_int (a_data_points r)
     @ '' records\<newline>''
     @ ''\<newline>''
     @ utf8 0x1F4A1 @ '' **Key Insights**:\<newline>''
     @ a_insights r @ ''\<newline>''
     @ ''\<newline>''
     @ utf8 0x1F52E @ '' **Recommendations**:\<newline>''
     @ utf8 0x2022 @ '' ''
     @ (if a_trend r = ''Increasing'' then ''Maintain current strategy''
        else ''Adjust strategy to reverse the trend'')
     @ ''\<newline>''
     @ utf8 0x2022 @ '' Monitor variables with strong correlations\<newline>''
     @ utf8 0x2022 @ '' Investigate detected anomalies\<newline>''
     @ ''\<newline>''
     @ ''Would you like a prediction based on this analysis?''"

text \<open>The \<^verbatim>\<open>try\<close> block of \<^verbatim>\<open>handle_analysis_request\<close>.\<close>

definition analysis_try ::
  "env \<Rightarrow> world \<Rightarrow> ChatbotEngine \<Rightarrow> string result \<times> ChatbotEngine \<times> world" where
  "analysis_try E w self =
     (case dict_getitem simulation_responses ''analysis'' of
        Inl e \<Rightarrow> (Inl e, self, w)
      | Inr templates \<Rightarrow>
          (case random_choice templates w of
             (Inl e, w1) \<Rightarrow> (Inl e, self, w1)
           | (Inr intro, w1) \<Rightarrow>
               (case analyze_data E w1 (ml_engine self) of
                  (Inl e, ml1, w2) \<Rightarrow> (Inl e, self\<lparr>ml_engine := ml1\<rparr>, w2)
                | (Inr r, ml1, w2) \<Rightarrow>
                    (let response = analysis_response intro r;
                         (self1, w3) = add_message E w2 (self\<lparr>ml_engine := ml1\<rparr>)
                                         ''assistant'' (PStr response)
                     in (Inr response, self1, w3)))))"

definition handle_analysis_request ::
  "env \<Rightarrow> world \<Rightarrow> ChatbotEngine \<Rightarrow> pyval \<Rightarrow> string result \<times> ChatbotEngine \<times> world" where
  "handle_analysis_request E w0 self user_message =
     (case analysis_try E (enter ''handle_analysis_request'' w0) self of
        (Inr response, self1, w1) \<Rightarrow> (Inr response, self1, w1)
      | (Inl e, self1, w1) \<Rightarrow>
          (let error_msg = utf8 0x274C @ '' Error during analysis: '' @ str_exn e;
               (self2, w2) = add_message E w1 self1 ''assistant'' (PStr error_msg)
           in (Inr error_msg, self2, w2)))"

definition how_it_works_reply :: string where
  "how_it_works_reply =
     utf8 0x1F916 @ '' **How I Work - Technical Overview**\<newline>''
     @ ''\<newline>''
     @ ''I'm an AI assistant specialized in predictive analytics! Here's what I can do:\<newline>''
     @ ''\<newline>''
     @ utf8 0x1F52E @ '' **Predictions**: \"Predict tomorrow's sales\"\<newline>''
     @ utf8 0x1F916 @ '' **Model Training**: \"Train a new model\" \<newline>''
     @ utf8 0x1F4CA @ '' **Data Analysis**: \"Analyze current trends\"\<newline>''
     @ ''\<newline>''
     @ ''**Core Technologies**:\<newline>''
     @ utf8 0x2022 @ '' Machine Learning (RandomForest, AutoML)\<newline>''
     @ utf8 0x2022 @ '' Time series analysis\<newline>''
     @ utf8 0x2022 @ '' Anomaly detection\<newline>''
     @ utf8 0x2022 @ '' Automated feature engineering\<newline>''
     @ ''\<newline>''
     @ ''**Supported Data Types**:\<newline>''
     @ utf8 0x2022 @ '' Sales, revenue, business metrics\<newline>''
     @ utf8 0x2022 @ '' Temporal data with seasonality\<newline>''
     @ utf8 0x2022 @ '' Multi-variable datasets (weather, marketing, etc.)\<newline>''
     @ ''\<newline>''
     @ ''Try a command to see the magic in action! '' @ utf8 0x2728"

definition help_reply :: string where
  "help_reply =
     utf8 0x1F4A1 @ '' **Help - Available Commands**\<newline>''
     @ ''\<newline>''
     @ ''**'' @ utf8 0x1F52E @ '' For Predictions:**\<newline>''
     @ utf8 0x2022 @ '' \"Predict tomorrow's sales\"\<newline>''
     @ utf8 0x2022 @ '' \"Forecast next 7 days\"\<newline>''
     @ utf8 0x2022 @ '' \"What's the trend analysis?\"\<newline>''
     @ ''\<newline>''
     @ ''**'' @ utf8 0x1F916 @ '' For Training:**\<newline>''
     @ utf8 0x2022 @ '' \"Train a new model\"\<newline>''
     @ utf8 0x2022 @ '' \"Improve accuracy\"\<newline>''
     @ utf8 0x2022 @ '' \"Optimize parameters\"\<newline>''
     @ ''\<newline>''
     @ ''**'' @ utf8 0x1F4CA @ '' For Analysis:**\<newline>''
     @ utf8 0x2022 @ '' \"Analyze current data\"\<newline>''
     @ utf8 0x2022 @ '' \"Show me trends\"\<newline>''
     @ utf8 0x2022 @ '' \"Detect anomalies\"\<newline>''
     @ ''\<newline>''
     @ ''**'' @ utf8 0x1F4AC @ '' General Questions:**\<newline>''
     @ utf8 0x2022 @ '' \"How does this work?\"\<newline>''
     @ utf8 0x2022 @ '' \"What data do you use?\"\<newline>''
     @ utf8 0x2022 @ '' \"Explain your methods\"\<newline>''
     @ ''\<newline>''
     @ ''What interests you the most?''"

definition data_sources_reply :: string where
  "data_sources_reply =
     utf8 0x1F4CA @ '' **My Data Sources & Processing**\<newline>''
     @ ''\<newline>''
     @ ''**'' @ utf8 0x1F4C8 @ '' Primary Dataset:**\<newline>''
     @ utf8 0x2022 @ '' 700+ days of sales data\<newline>''
     @ utf8 0x2022 @ '' Variables: sales, weather, marketing, calendar\<newline>''
     @ utf8 0x2022 @ '' Period: 2023-2024 (synthetic but realistic data)\<newline>''
     @ ''\<newline>''
     @ ''**'' @ utf8 0x1F50D @ '' Features Used:**\<newline>''
     @ utf8 0x2022 @ '' `sales` : Daily sales (target variable)\<newline>''
     @ utf8 0x2022 @ '' `day_of_week` : Day of week (0-6)\<newline>''
     @ utf8 0x2022 @ '' `month` : Month (1-12) \<newline>''
     @ utf8 0x2022 @ '' `is_weekend` : Weekend flag (0/1)\<newline>''
     @ utf8 0x2022 @ '' `temperature` : Average temperature\<newline>''
     @ utf8 0x2022 @ '' `marketing_spend` : Daily marketing budget\<newline>''
     @ ''\<newline>''
     @ ''**'' @ utf8 0x1F9E0 @ '' Automated Preprocessing:**\<newline>''
     @ utf8 0x2022 @ '' Missing value handling\<newline>''
     @ utf8 0x2022 @ '' Feature normalization\<newline>''
     @ utf8 0x2022 @ '' Temporal feature engineering\<newline>''
     @ utf8 0x2022 @ '' Intelligent train/test split\<newline>''
     @ ''\<newline>''
     @ ''The data is generated with realistic patterns: trend + seasonality + noise!''"

definition general_suffix :: "string \<Rightarrow> string" where
  "general_suffix user_message =
     ''\<newline>''
     @ ''\<newline>''
     @ ''**'' @ utf8 0x1F4A1 @ '' Based on your message (\"'' @ str_prefix 50 user_message
     @ ''...\"), I can:**\<newline>''
     @ ''\<newline>''
     @ utf8 0x2022 @ '' '' @ utf8 0x1F52E @ '' Generate relevant predictions\<newline>''
     @ utf8 0x2022 @ '' '' @ utf8 0x1F4CA @ '' Analyze hidden patterns  \<newline>''
     @ utf8 0x2022 @ '' '' @ utf8 0x1F916 @ '' Train optimized models\<newline>''
     @ utf8 0x2022 @ '' '' @ utf8 0x1F4A1 @ '' Provide actionable insights\<newline>''
     @ ''\<newline>''
     @ ''**Quick Example:** Say \"Predict tomorrow\" and I'll show you my ML power! \<newline>''
     @ ''\<newline>''
     @ ''What would you like to explore?''"

definition handle_general_request ::
  "env \<Rightarrow> world \<Rightarrow> ChatbotEngine \<Rightarrow> pyval \<Rightarrow> string result \<times> ChatbotEngine \<times> world" where
  "handle_general_request E w0 self user_message =
     (let w = enter ''handle_general_request'' w0
      in case user_message of
           PStr text \<Rightarrow>
             (let user_lower = lower E text
              in case
                   (if any_in [''how'', ''work'', ''explain'', ''methodology''] user_lower
                    then (Inr how_it_works_reply, w)
                    else if any_in [''help'', ''assistance'', ''commands''] user_lower
                    then (Inr help_reply, w)
                    else if any_in [''data'', ''dataset'', ''information''] user_lower
                    then (Inr data_sources_reply, w)
                    else
                      (case dict_getitem simulation_responses ''general'' of
                         Inl e \<Rightarrow> (Inl e, w)
                       | Inr templates \<Rightarrow>
                           (case random_choice templates w of
                              (Inl e, w1) \<Rightarrow> (Inl e, w1)
                            | (Inr opening, w1) \<Rightarrow>
                                (Inr (opening @ general_suffix text), w1))))
                 of
                   (Inl e, w1) \<Rightarrow> (Inl e, self, w1)
                 | (Inr response, w1) \<Rightarrow>
                     (let (self1, w2) = add_message E w1 self ''assistant'' (PStr response)
                      in (Inr response, self1, w2)))
         | _ \<Rightarrow> (Inl (AttributeError (type_name user_message) ''lower''), self, w))"

section \<open>Message processing (chatbot.py)\<close>

text \<open>The part of \<^verbatim>\<open>process_message\<close> after the instant-response return.\<close>

definition process_dispatch ::
  "env \<Rightarrow> world \<Rightarrow> ChatbotEngine \<Rightarrow> pyval \<Rightarrow> string result \<times> ChatbotEngine \<times> world" where
  "process_dispatch E w self user_message =
     (let (self1, w1) = simulate_typing_delay w self
      in case detect_ml_intent E w1 self1 user_message of
           (Inl e, self2, w2) \<Rightarrow> (Inl e, self2, w2)
         | (Inr intent_result, self2, w2) \<Rightarrow>
             if intent intent_result = ''greeting'' then handle_greeting E w2 self2
             else if intent intent_result = ''prediction''
               then handle_prediction_request E w2 self2 user_message
             else if intent intent_result = ''training''
               then handle_training_request E w2 self2 user_message
             else if intent intent_result = ''analysis''
               then handle_analysis_request E w2 self2 user_message
             else handle_general_request E w2 self2 user_message)"

definition process_message ::
  "env \<Rightarrow> world \<Rightarrow> ChatbotEngine \<Rightarrow> pyval \<Rightarrow> string result \<times> ChatbotEngine \<times> world" where
  "process_message E w0 self user_message =
     (let w = enter ''process_message'' w0;
          (self1, w1) = add_message E w self ''user'' user_message
      in case get_instant_response E w1 self1 user_message of
           (Inl e, self2, w2) \<Rightarrow> (Inl e, self2, w2)
         | (Inr instant_response, self2, w2) \<Rightarrow>
             (case instant_response of
                Some response \<Rightarrow>
                  if response \<noteq> [] then
                    (let (self3, w3) = add_message E w2 self2 ''assistant'' (PStr response)
                     in (Inr response, self3, w3))
                  else process_dispatch E w2 self2 user_message
              | None \<Rightarrow> process_dispatch E w2 self2 user_message))"

section \<open>The chat endpoint (api.py)\<close>

text \<open>
  \<^verbatim>\<open>chat_endpoint\<close> works on the module's one \<^verbatim>\<open>chatbot\<close>. \<open>chat_try\<close> is its
  \<^verbatim>\<open>try\<close> block; the handler \<^verbatim>\<open>except Exception\<close> around it also catches the
  \<^verbatim>\<open>HTTPException\<close> raised inside, which is an \<^verbatim>\<open>Exception\<close>.
\<close>

definition chat_try ::
  "env \<Rightarrow> world \<Rightarrow> ChatbotEngine \<Rightarrow> pyval dict \<Rightarrow> string dict result \<times> ChatbotEngine \<times> world" where
  "chat_try E w chatbot data =
     (let message = dict_get data ''message'' (PStr [])
      in if \<not> truthy message then (Inl (HTTPException 400 ''Message requis''), chatbot, w)
         else
           (case process_message E w chatbot message of
              (Inl e, chatbot1, w1) \<Rightarrow> (Inl e, chatbot1, w1)
            | (Inr response, chatbot1, w1) \<Rightarrow>
                (Inr [(''response'', response), (''conversation_id'', ''default''),
                      (''processing_time'', utf8 0x26A1 @ '' Instant'')],
                 chatbot1, w1)))"

definition chat_endpoint ::
  "env \<Rightarrow> world \<Rightarrow> ChatbotEngine \<Rightarrow> pyval dict \<Rightarrow> string dict result \<times> ChatbotEngine \<times> world" where
  "chat_endpoint E w0 chatbot data =
     (case chat_try E (enter ''chat_endpoint'' w0) chatbot data of
        (Inl e, chatbot1, w1) \<Rightarrow>
          (Inl (HTTPException 500 (''Erreur de chat: '' @ str_exn e)), chatbot1, w1)
      | (Inr body, chatbot1, w1) \<Rightarrow> (Inr body, chatbot1, w1))"

section \<open>Vocabulary of the properties\<close>

text \<open>\<open>new_calls w w'\<close>: the methods entered between the worlds \<open>w\<close> and \<open>w'\<close>.\<close>

definition new_calls :: "world \<Rightarrow> world \<Rightarrow> string list" where
  "new_calls w w' = drop (length (calls w)) (calls w')"

text \<open>\<open>history_after E h m\<close>: the history that \<^verbatim>\<open>add_message\<close> leaves when it finds
  the history \<open>h\<close> and appends \<open>m\<close> (lemma \<open>history_add_message\<close>).\<close>

definition history_after :: "env \<Rightarrow> message list \<Rightarrow> message \<Rightarrow> message list" where
  "history_after E h m =
     (if MAX_CONVERSATION_LENGTH E < int (length (h @ [m]))
      then slice_last (MAX_CONVERSATION_LENGTH E) (h @ [m]) else h @ [m])"

definition mk_message :: "string \<times> pyval \<Rightarrow> message" where
  "mk_message rc = \<lparr>role = fst rc, content = snd rc\<rparr>"

text \<open>
  The world in which \<^verbatim>\<open>process_message\<close> reaches the collaborator from the handler
  \<open>h\<close>, on a message that misses the cache: six methods entered, two random numbers
  drawn (the typing delay and the choice of the intro).
\<close>

definition collaborator_call_world :: "string \<Rightarrow> world \<Rightarrow> world" where
  "collaborator_call_world h w =
     advance (enter h (enter ''detect_ml_intent'' (advance (enter ''simulate_typing_delay''
       (enter ''get_instant_response'' (enter ''add_message''
         (enter ''process_message'' w)))))))"

text \<open>Concrete worlds and objects for the instances below.\<close>

definition w_init :: world where
  "w_init = \<lparr>tick = 0, random_src = (\<lambda>n. 68 / 100), randbelow_src = (\<lambda>n. 0),
             clock_src = (\<lambda>n. if n < 5 then 0 else 124 / 10), calls = []\<rparr>"

text \<open>A world whose draws and clock make \<^verbatim>\<open>train_model\<close> return the score \<^verbatim>\<open>0.918\<close>
  after \<^verbatim>\<open>12.4\<close> seconds.\<close>

definition w_training :: world where
  "w_training =
     \<lparr>tick = 0,
      random_src = (\<lambda>n. (py_float (918 / 1000) - 85 / 100) / (95 / 100 - 85 / 100)),
      randbelow_src = (\<lambda>n. 0),
      clock_src = (\<lambda>n. if n < 5 then 0 else py_float (124 / 10)), calls = []\<rparr>"

definition sample_point :: datapoint where
  "sample_point = \<lparr>dp_day = 0, dp_value = 100, dp_day_of_week = 0, dp_month = 1,
                   dp_is_weekend = 0\<rparr>"

definition new_chatbot :: ChatbotEngine where
  "new_chatbot = ChatbotEngine_init [sample_point]"

definition broken_chatbot :: ChatbotEngine where
  "broken_chatbot = ChatbotEngine_init []"

definition numbered_messages :: "nat \<Rightarrow> (string \<times> pyval) list" where
  "numbered_messages n = map (\<lambda>i. (''user'', PStr (''Message '' @ str_nat i))) [0..<n]"

section \<open>Auxiliary facts\<close>

lemma is_prefix_append: "is_prefix xs (xs @ ys)"
  by (induction xs) auto

lemma is_prefix_iff: "is_prefix xs ys \<longleftrightarrow> (\<exists>zs. ys = xs @ zs)"
  by (induction xs ys rule: is_prefix.induct) auto

lemma contains_here: "contains x (x @ r)"
  using is_prefix_append [of x r] by (cases "x @ r") auto

lemma contains_skip: "contains x r \<Longrightarrow> contains x (a @ r)"
  by (induction a) auto

lemma contains_iff: "contains sub s \<longleftrightarrow> (\<exists>p q. s = p @ sub @ q)"
proof (induction s)
  case Nil
  then show ?case by simp
next
  case (Cons y ys)
  show ?case
  proof
    assume "contains sub (y # ys)"
    then consider "is_prefix sub (y # ys)" | "contains sub ys" by auto
    then show "\<exists>p q. y # ys = p @ sub @ q"
    proof cases
      case 1
      then obtain zs where "y # ys = sub @ zs" by (auto simp: is_prefix_iff)
      then have "y # ys = [] @ sub @ zs" by simp
      then show ?thesis by blast
    next
      case 2
      with Cons obtain p q where "ys = p @ sub @ q" by auto
      then have "y # ys = (y # p) @ sub @ q" by simp
      then show ?thesis by blast
    qed
  next
    assume "\<exists>p q. y # ys = p @ sub @ q"
    then obtain p q where pq: "y # ys = p @ sub @ q" by auto
    show "contains sub (y # ys)"
    proof (cases p)
      case Nil
      with pq have "is_prefix sub (y # ys)" by (auto simp: is_prefix_iff)
      then show ?thesis by simp
    next
      case (Cons a p')
      with pq have "ys = p' @ sub @ q" by simp
      with Cons.IH show ?thesis by auto
    qed
  qed
qed

lemma calls_advance [simp]: "calls (advance w) = calls w"
  by (simp add: advance_def)

lemma calls_enter [simp]: "calls (enter n w) = calls w @ [n]"
  by (simp add: enter_def)

lemma history_add_message:
  "conversation_history (fst (add_message E w self r c)) =
     history_after E (conversation_history self) \<lparr>role = r, content = c\<rparr>"
  by (simp add: add_message_def history_after_def Let_def)

lemma add_message_world: "snd (add_message E w self r c) = enter ''add_message'' w"
  by (simp add: add_message_def Let_def)

lemma add_message_ml: "ml_engine (fst (add_message E w self r c)) = ml_engine self"
  by (simp add: add_message_def Let_def)

lemma history_after_last_n:
  "0 < MAX_CONVERSATION_LENGTH E \<Longrightarrow>
   history_after E h m = drop (length (h @ [m]) - nat (MAX_CONVERSATION_LENGTH E)) (h @ [m])"
  by (auto simp: history_after_def slice_last_def)

lemma history_after_length:
  "0 < MAX_CONVERSATION_LENGTH E \<Longrightarrow>
   int (length (history_after E h m)) \<le> MAX_CONVERSATION_LENGTH E"
  by (auto simp: history_after_def slice_last_def)

lemma history_after_last:
  "0 \<le> MAX_CONVERSATION_LENGTH E \<Longrightarrow>
   history_after E h m \<noteq> [] \<and> last (history_after E h m) = m"
  by (auto simp: history_after_def slice_last_def)

lemma drop_drop_append:
  "0 < (n::nat) \<Longrightarrow> drop (length (drop (length xs - n) xs @ ys) - n) (drop (length xs - n) xs @ ys)
         = drop (length (xs @ ys) - n) (xs @ ys)"
  by (cases "length xs \<le> n") (auto simp: add.commute)

lemma add_messages_history:
  assumes "0 < MAX_CONVERSATION_LENGTH E"
  shows "conversation_history (fst (add_messages E w self ms)) =
         (if ms = [] then conversation_history self
          else drop (length (conversation_history self @ map mk_message ms)
                     - nat (MAX_CONVERSATION_LENGTH E))
                 (conversation_history self @ map mk_message ms))"
proof (induction ms arbitrary: w self)
  case Nil
  then show ?case by simp
next
  case (Cons rc ms)
  obtain r c where rc: "rc = (r, c)" by (cases rc)
  let ?n = "nat (MAX_CONVERSATION_LENGTH E)"
  let ?h = "conversation_history self"
  let ?m = "\<lparr>role = r, content = c\<rparr>"
  have n: "0 < ?n" using assms by simp
  have step: "conversation_history (fst (add_message E w self r c)) =
                drop (length (?h @ [?m]) - ?n) (?h @ [?m])"
    using assms by (simp add: history_add_message history_after_last_n)
  show ?case
  proof (cases "ms = []")
    case True
    then show ?thesis using step rc by (simp add: mk_message_def split: prod.splits)
  next
    case False
    have "conversation_history (fst (add_messages E w self (rc # ms))) =
          conversation_history
            (fst (add_messages E (snd (add_message E w self r c)) (fst (add_message E w self r c)) ms))"
      using rc by (simp split: prod.splits)
    also have "\<dots> = drop (length (drop (length (?h @ [?m]) - ?n) (?h @ [?m]) @ map mk_message ms) - ?n)
                       (drop (length (?h @ [?m]) - ?n) (?h @ [?m]) @ map mk_message ms)"
      using False by (simp add: Cons.IH step)
    also have "\<dots> = drop (length ((?h @ [?m]) @ map mk_message ms) - ?n)
                       ((?h @ [?m]) @ map mk_message ms)"
      using n by (rule drop_drop_append)
    finally show ?thesis using rc by (simp add: mk_message_def)
  qed
qed


text \<open>
  C8. After \<^verbatim>\<open>clear_conversation\<close> (reset), \<^verbatim>\<open>get_conversation_history\<close> (history)
  returns the empty list, whatever the session held before.
\<close>

theorem reset_then_history_empty:
  "fst (get_conversation_history (clear_conversation self)) = []"
  by (simp add: get_conversation_history_def clear_conversation_def)

theorem reset_then_history_empty_witness:
  "fst (get_conversation_history (clear_conversation
     (fst (add_messages shipped w_init new_chatbot (numbered_messages 3))))) = []"
  by (rule reset_then_history_empty)

text \<open>
  C3. With a positive configured maximum, no run of \<^verbatim>\<open>add_message\<close> calls takes the
  history above it; from the empty session the history is the last \<open>MAX\<close> appended
  messages in their order, so appending \<open>MAX + 1\<close> messages leaves exactly \<open>MAX\<close>, all
  but the oldest.
\<close>

theorem conversation_bounded:
  assumes "0 < MAX_CONVERSATION_LENGTH E"
  shows "(int (length (conversation_history self)) \<le> MAX_CONVERSATION_LENGTH E \<longrightarrow>
            int (length (conversation_history (fst (add_messages E w self ms))))
              \<le> MAX_CONVERSATION_LENGTH E)
       \<and> (conversation_history self = [] \<longrightarrow>
            conversation_history (fst (add_messages E w self ms)) =
              drop (length ms - nat (MAX_CONVERSATION_LENGTH E)) (map mk_message ms))
       \<and> (conversation_history self = [] \<and> int (length ms) = MAX_CONVERSATION_LENGTH E + 1 \<longrightarrow>
            conversation_history (fst (add_messages E w self ms)) = map mk_message (tl ms)
            \<and> int (length (conversation_history (fst (add_messages E w self ms))))
                = MAX_CONVERSATION_LENGTH E)"
proof -
  let ?n = "nat (MAX_CONVERSATION_LENGTH E)"
  let ?h = "conversation_history (fst (add_messages E w self ms))"
  have h: "?h = (if ms = [] then conversation_history self
                 else drop (length (conversation_history self @ map mk_message ms) - ?n)
                        (conversation_history self @ map mk_message ms))"
    using assms by (rule add_messages_history)
  have 1: "int (length ?h) \<le> MAX_CONVERSATION_LENGTH E"
    if "int (length (conversation_history self)) \<le> MAX_CONVERSATION_LENGTH E"
    using that assms by (auto simp: h)
  have 2: "?h = drop (length ms - ?n) (map mk_message ms)" if "conversation_history self = []"
    using that by (simp add: h)
  have 3: "?h = map mk_message (tl ms) \<and> int (length ?h) = MAX_CONVERSATION_LENGTH E"
    if "conversation_history self = []" "int (length ms) = MAX_CONVERSATION_LENGTH E + 1"
  proof -
    from that(2) assms have "length ms - ?n = 1" by linarith
    then show ?thesis using 2 [OF that(1)] that(2) by (simp add: drop_Suc map_tl)
  qed
  from 1 2 3 show ?thesis by blast
qed

theorem conversation_bounded_witness:
  "int (length (conversation_history
          (fst (add_messages shipped w_init new_chatbot (numbered_messages 51))))) = 50
   \<and> conversation_history (fst (add_messages shipped w_init new_chatbot (numbered_messages 51)))
       = map mk_message (tl (numbered_messages 51))"
proof -
  have a: "0 < MAX_CONVERSATION_LENGTH shipped"
    by (simp add: shipped_def)
  have b: "conversation_history new_chatbot = []"
    by (simp add: new_chatbot_def ChatbotEngine_init_def)
  have c: "int (length (numbered_messages 51)) = MAX_CONVERSATION_LENGTH shipped + 1"
    by (simp add: numbered_messages_def shipped_def)
  have d: "MAX_CONVERSATION_LENGTH shipped = 50"
    by (simp add: shipped_def)
  from conversation_bounded [OF a, of new_chatbot w_init "numbered_messages 51"] b c
  have "conversation_history (fst (add_messages shipped w_init new_chatbot (numbered_messages 51)))
          = map mk_message (tl (numbered_messages 51))
        \<and> int (length (conversation_history
              (fst (add_messages shipped w_init new_chatbot (numbered_messages 51)))))
          = MAX_CONVERSATION_LENGTH shipped"
    by blast
  then show ?thesis unfolding d by blast
qed

lemma str_lower_PStr [simp]: "str_lower E (PStr t) = Inr (lower E t)"
  by (simp add: str_lower_def)

lemma first_match_find:
  "first_match d s = map_option snd (find (\<lambda>(key, v). contains key s) d)"
  by (induction d s rule: first_match.induct) auto

lemma any_in_iff: "any_in ws s \<longleftrightarrow> (\<exists>word \<in> set ws. contains word s)"
  by (induction ws) auto

lemma instant_cache_keys:
  "map fst instant_cache = [''hello'', ''hi'', ''hey'', ''status'', ''help'', ''test'', ''speed'']"
  by (simp add: instant_cache_def)

lemma instant_cache_distinct: "distinct (map fst instant_cache)"
  by (simp add: instant_cache_keys)

lemma map_of_instant_cache:
  "(k, reply) \<in> set instant_cache \<Longrightarrow> map_of instant_cache k = Some reply"
  using instant_cache_distinct by simp

lemma instant_cache_nonempty: "(k, reply) \<in> set instant_cache \<Longrightarrow> reply \<noteq> []"
  by (auto simp: instant_cache_def)

lemma lightning_reply_nonempty: "lightning_reply \<noteq> []"
  by (simp add: lightning_reply_def)

lemma get_instant_response_str:
  "get_instant_response E w self (PStr m) =
     (Inr (if dict_has instant_cache (strip E (lower E m))
           then map_of instant_cache (strip E (lower E m))
           else (case first_match instant_cache (strip E (lower E m)) of
                   Some response \<Rightarrow> Some response
                 | None \<Rightarrow>
                     if any_in [''quick'', ''fast'', ''rapid'', ''instant''] (strip E (lower E m))
                     then Some lightning_reply else None)),
      self, enter ''get_instant_response'' w)"
  by (auto simp: get_instant_response_def dict_has_def dict_getitem_def Let_def
           split: option.splits)

lemma first_match_instant_nonempty:
  "first_match instant_cache s = Some reply \<Longrightarrow> reply \<noteq> []"
  by (auto simp: instant_cache_def split: if_splits)

lemma new_calls_append [simp]: "calls w' = calls w @ xs \<Longrightarrow> new_calls w w' = xs"
  by (simp add: new_calls_def)

lemma process_message_hit:
  assumes "fst (get_instant_response E (snd (add_message E (enter ''process_message'' w) self ''user'' (PStr m)))
                  (fst (add_message E (enter ''process_message'' w) self ''user'' (PStr m))) (PStr m))
           = Inr (Some reply)"
    and "reply \<noteq> []"
  shows "process_message E w self (PStr m) =
           (Inr reply,
            fst (add_message E w (fst (add_message E w self ''user'' (PStr m)))
                   ''assistant'' (PStr reply)),
            enter ''add_message'' (enter ''get_instant_response'' (enter ''add_message''
              (enter ''process_message'' w))))"
  using assms
  by (simp add: process_message_def get_instant_response_str Let_def add_message_def
           split: prod.splits if_splits)


lemma norm_fast: "strip shipped (lower shipped ''fast'') = ''fast''"
  by code_simp

lemma norm_oh_hi: "strip shipped (lower shipped ''oh HI there'') = ''oh hi there''"
  by code_simp

lemma norm_hello_padded: "strip shipped (lower shipped ''  Hello '') = ''hello''"
  by code_simp

text \<open>
  C5, as stated: a message that is no cache key and contains no cache key gets the
  no-match signal. The message \<open>fast\<close> is neither and gets a reply.
\<close>

theorem instant_lookup_counterexample:
  "\<not> dict_has instant_cache (strip shipped (lower shipped ''fast''))
   \<and> first_match instant_cache (strip shipped (lower shipped ''fast'')) = None
   \<and> fst (get_instant_response shipped w_init new_chatbot (PStr ''fast''))
       = Inr (Some lightning_reply)"
  by (simp add: get_instant_response_str norm_fast dict_has_def instant_cache_def)

text \<open>
  C5, amended. On a string, the lookup never raises and leaves the session as it is. Its
  reply is (a) that of the cache key equal to the trimmed lowercased message; else (b)
  that of the first cache key, in enumeration order, that the trimmed lowercased message
  contains; else (c) the fixed lightning reply when it contains one of \<open>quick\<close>,
  \<open>fast\<close>, \<open>rapid\<close>, \<open>instant\<close>; else the no-match signal.
\<close>

theorem instant_lookup:
  "get_instant_response E w self (PStr m) =
     (Inr (case map_of instant_cache (strip E (lower E m)) of
             Some reply \<Rightarrow> Some reply
           | None \<Rightarrow>
               (case find (\<lambda>(key, reply). contains key (strip E (lower E m))) instant_cache of
                  Some (key, reply) \<Rightarrow> Some reply
                | None \<Rightarrow>
                    if \<exists>word \<in> set [''quick'', ''fast'', ''rapid'', ''instant''].
                         contains word (strip E (lower E m))
                    then Some lightning_reply else None)),
      self, enter ''get_instant_response'' w)"
proof -
  let ?k = "strip E (lower E m)"
  have "any_in [''quick'', ''fast'', ''rapid'', ''instant''] ?k \<longleftrightarrow>
        (\<exists>word \<in> set [''quick'', ''fast'', ''rapid'', ''instant'']. contains word ?k)"
    by (rule any_in_iff)
  then show ?thesis
    by (simp only: get_instant_response_str first_match_find dict_has_def)
       (auto split: option.splits)
qed

theorem instant_lookup_witness:
  "get_instant_response shipped w_init new_chatbot (PStr ''oh HI there'') =
     (Inr (Some (''Hi there! '' @ utf8 0x1F916 @ '' Ready to explore data predictions together?'')),
      new_chatbot, enter ''get_instant_response'' w_init)"
  using instant_lookup [of shipped w_init new_chatbot "''oh HI there''"]
  by (simp add: norm_oh_hi instant_cache_def)

text \<open>
  C1. When the trimmed lowercased message is a cache key, \<^verbatim>\<open>process_message\<close> returns
  that key's canned reply, appends the message and the reply to the history, and enters
  exactly four methods, none of them the classifier.
\<close>

theorem cache_hit_skips_classifier:
  assumes "(k, reply) \<in> set instant_cache" and "strip E (lower E m) = k"
  shows "\<exists>self' w'.
           process_message E w self (PStr m) = (Inr reply, self', w')
         \<and> conversation_history self' =
             history_after E
               (history_after E (conversation_history self) \<lparr>role = ''user'', content = PStr m\<rparr>)
               \<lparr>role = ''assistant'', content = PStr reply\<rparr>
         \<and> new_calls w w' =
             [''process_message'', ''add_message'', ''get_instant_response'', ''add_message'']
         \<and> ''detect_ml_intent'' \<notin> set (new_calls w w')"
proof -
  from assms have hit: "map_of instant_cache (strip E (lower E m)) = Some reply"
    by (simp add: map_of_instant_cache)
  from assms(1) have ne: "reply \<noteq> []"
    by (rule instant_cache_nonempty)
  have "process_message E w self (PStr m) =
          (Inr reply,
           fst (add_message E w (fst (add_message E w self ''user'' (PStr m)))
                  ''assistant'' (PStr reply)),
           enter ''add_message'' (enter ''get_instant_response'' (enter ''add_message''
             (enter ''process_message'' w))))"
    using hit ne by (intro process_message_hit) (simp_all add: get_instant_response_str dict_has_def)
  then show ?thesis
    by (simp add: history_add_message new_calls_def)
qed

theorem cache_hit_skips_classifier_witness:
  "\<exists>self' w'.
     process_message shipped w_init new_chatbot (PStr ''  Hello '') =
       (Inr (''Hello! '' @ utf8 0x1F44B
              @ '' I'm your AI-powered predictive assistant! Ready for instant predictions?''),
        self', w')
   \<and> ''detect_ml_intent'' \<notin> set (new_calls w_init w')"
proof -
  have "(''hello'', ''Hello! '' @ utf8 0x1F44B
          @ '' I'm your AI-powered predictive assistant! Ready for instant predictions?'')
        \<in> set instant_cache"
    by (simp add: instant_cache_def)
  from cache_hit_skips_classifier [OF this norm_hello_padded, of w_init new_chatbot]
  show ?thesis by blast
qed

lemma calls_random_uniform [simp]: "calls (snd (random_uniform a b w)) = calls w"
  by (simp add: random_uniform_def)

lemma calls_randbelow [simp]: "calls (snd (randbelow n w)) = calls w"
  by (simp add: randbelow_def)

lemma calls_datetime_now [simp]: "calls (snd (datetime_now w)) = calls w"
  by (simp add: datetime_now_def)

lemma calls_random_randint [simp]: "calls (snd (random_randint a b w)) = calls w"
  by (simp add: random_randint_def randbelow_def Let_def)

lemma calls_random_choice [simp]: "calls (snd (random_choice seq w)) = calls w"
  by (simp add: random_choice_def randbelow_def Let_def)

lemma random_choice_nonempty:
  "seq \<noteq> [] \<Longrightarrow> \<exists>x. random_choice seq w = (Inr x, advance w) \<and> x \<in> set seq"
  by (simp add: random_choice_def randbelow_def Let_def)

lemma train_model_calls:
  "train_model w self = (x, self1, w1) \<Longrightarrow> calls w1 = calls w @ [''train_model'']"
  by (auto simp: train_model_def Let_def random_uniform_def datetime_now_def
           split: sum.splits prod.splits)

lemma predict_loop_calls:
  "predict_loop self lv idx acc w = (x, w1) \<Longrightarrow> calls w1 = calls w"
proof (induction idx arbitrary: acc w)
  case Nil
  then show ?case by simp
next
  case (Cons i rest)
  then show ?case
    by (auto simp: Let_def random_uniform_def split: sum.splits prod.splits)
qed

lemma dates_loop_calls: "dates_loop idx w = (ds, w1) \<Longrightarrow> calls w1 = calls w"
proof (induction idx arbitrary: ds w w1)
  case Nil
  then show ?case by simp
next
  case (Cons i rest)
  then show ?case
    by (auto simp: Let_def datetime_now_def split: prod.splits)
qed

lemma predict_body_calls:
  "predict_body w self n = (x, self1, w1) \<Longrightarrow> calls w1 = calls w"
  by (auto simp: predict_body_def Let_def random_uniform_def
           split: sum.splits prod.splits dest!: predict_loop_calls dates_loop_calls)

lemma predict_next_values_calls:
  "predict_next_values w self n = (x, self1, w1) \<Longrightarrow>
   calls w1 = calls w @ ''predict_next_values'' # (if is_trained self then [] else [''train_model''])"
  by (auto simp: predict_next_values_def Let_def
           split: sum.splits prod.splits if_splits
           dest!: predict_body_calls train_model_calls)

lemma analyze_data_calls:
  "analyze_data E w self = (x, self1, w1) \<Longrightarrow> calls w1 = calls w @ [''analyze_data'']"
  by (auto simp: analyze_data_def Let_def random_randint_def randbelow_def
           split: sum.splits prod.splits)


lemma simulation_responses_lookup:
  "k \<in> {''greeting'', ''prediction'', ''training'', ''analysis'', ''general''} \<Longrightarrow>
   \<exists>ts. dict_getitem simulation_responses k = Inr ts \<and> ts \<noteq> []"
  by (auto simp: dict_getitem_def simulation_responses_def)

lemma handle_prediction_request_replies:
  "\<exists>reply self' w' xs.
     handle_prediction_request E w self msg = (Inr reply, self', w')
   \<and> conversation_history self' =
       history_after E (conversation_history self) \<lparr>role = ''assistant'', content = PStr reply\<rparr>
   \<and> calls w' = calls w @ ''handle_prediction_request'' # xs @ [''add_message'']
   \<and> ''add_message'' \<notin> set xs"
proof -
  let ?w0 = "enter ''handle_prediction_request'' w"
  obtain ts where ts: "dict_getitem simulation_responses ''prediction'' = Inr ts" "ts \<noteq> []"
    using simulation_responses_lookup by blast
  obtain intro where rc: "random_choice ts ?w0 = (Inr intro, advance ?w0)"
    using random_choice_nonempty [OF ts(2)] by blast
  obtain x ml1 w2 where call: "predict_next_values (advance ?w0) (ml_engine self) 7 = (x, ml1, w2)"
    by (cases "predict_next_values (advance ?w0) (ml_engine self) 7") auto
  have c2: "calls w2 = calls w @ ''handle_prediction_request'' # drop (Suc (length (calls w))) (calls w2)"
       "''add_message'' \<notin> set (drop (Suc (length (calls w))) (calls w2))"
    using predict_next_values_calls [OF call] by simp_all
  show ?thesis
  proof (cases x)
    case (Inl e)
    then have "handle_prediction_request E w self msg =
        (Inr (utf8 0x274C @ '' Error during prediction: '' @ str_exn e),
         fst (add_message E w2 (self\<lparr>ml_engine := ml1\<rparr>) ''assistant''
                (PStr (utf8 0x274C @ '' Error during prediction: '' @ str_exn e))),
         enter ''add_message'' w2)"
      by (simp add: handle_prediction_request_def prediction_try_def ts rc call add_message_def Let_def)
    then show ?thesis
      using c2 by (simp add: history_add_message) (metis append_Cons append_assoc)
  next
    case (Inr r)
    then have "handle_prediction_request E w self msg =
        (Inr (prediction_response intro r),
         fst (add_message E w2 (self\<lparr>ml_engine := ml1\<rparr>) ''assistant''
                (PStr (prediction_response intro r))),
         enter ''add_message'' w2)"
      by (simp add: handle_prediction_request_def prediction_try_def ts rc call add_message_def Let_def)
    then show ?thesis
      using c2 by (simp add: history_add_message) (metis append_Cons append_assoc)
  qed
qed


lemma handle_training_request_replies:
  "\<exists>reply self' w' xs.
     handle_training_request E w self msg = (Inr reply, self', w')
   \<and> conversation_history self' =
       history_after E (conversation_history self) \<lparr>role = ''assistant'', content = PStr reply\<rparr>
   \<and> calls w' = calls w @ ''handle_training_request'' # xs @ [''add_message'']
   \<and> ''add_message'' \<notin> set xs"
proof -
  let ?w0 = "enter ''handle_training_request'' w"
  obtain ts where ts: "dict_getitem simulation_responses ''training'' = Inr ts" "ts \<noteq> []"
    using simulation_responses_lookup by blast
  obtain intro where rc: "random_choice ts ?w0 = (Inr intro, advance ?w0)"
    using random_choice_nonempty [OF ts(2)] by blast
  obtain x ml1 w2 where call: "train_model (advance ?w0) (ml_engine self) = (x, ml1, w2)"
    by (cases "train_model (advance ?w0) (ml_engine self)") auto
  have c2: "calls w2 = calls w @ ''handle_training_request'' # drop (Suc (length (calls w))) (calls w2)"
       "''add_message'' \<notin> set (drop (Suc (length (calls w))) (calls w2))"
    using train_model_calls [OF call] by simp_all
  show ?thesis
  proof (cases x)
    case (Inl e)
    then have "handle_training_request E w self msg =
        (Inr (utf8 0x274C @ '' Error during training: '' @ str_exn e),
         fst (add_message E w2 (self\<lparr>ml_engine := ml1\<rparr>) ''assistant''
                (PStr (utf8 0x274C @ '' Error during training: '' @ str_exn e))),
         enter ''add_message'' w2)"
      by (simp add: handle_training_request_def training_try_def ts rc call add_message_def Let_def)
    then show ?thesis
      using c2 by (simp add: history_add_message) (metis append_Cons append_assoc)
  next
    case (Inr r)
    then have "handle_training_request E w self msg =
        (Inr (training_response intro r),
         fst (add_message E w2 (self\<lparr>ml_engine := ml1\<rparr>) ''assistant''
                (PStr (training_response intro r))),
         enter ''add_message'' w2)"
      by (simp add: handle_training_request_def training_try_def ts rc call add_message_def Let_def)
    then show ?thesis
      using c2 by (simp add: history_add_message) (metis append_Cons append_assoc)
  qed
qed

lemma handle_analysis_request_replies:
  "\<exists>reply self' w' xs.
     handle_analysis_request E w self msg = (Inr reply, self', w')
   \<and> conversation_history self' =
       history_after E (conversation_history self) \<lparr>role = ''assistant'', content = PStr reply\<rparr>
   \<and> calls w' = calls w @ ''handle_analysis_request'' # xs @ [''add_message'']
   \<and> ''add_message'' \<notin> set xs"
proof -
  let ?w0 = "enter ''handle_analysis_request'' w"
  obtain ts where ts: "dict_getitem simulation_responses ''analysis'' = Inr ts" "ts \<noteq> []"
    using simulation_responses_lookup by blast
  obtain intro where rc: "random_choice ts ?w0 = (Inr intro, advance ?w0)"
    using random_choice_nonempty [OF ts(2)] by blast
  obtain x ml1 w2 where call: "analyze_data E (advance ?w0) (ml_engine self) = (x, ml1, w2)"
    by (cases "analyze_data E (advance ?w0) (ml_engine self)") auto
  have c2: "calls w2 = calls w @ ''handle_analysis_request'' # drop (Suc (length (calls w))) (calls w2)"
       "''add_message'' \<notin> set (drop (Suc (length (calls w))) (calls w2))"
    using analyze_data_calls [OF call] by simp_all
  show ?thesis
  proof (cases x)
    case (Inl e)
    then have "handle_analysis_request E w self msg =
        (Inr (utf8 0x274C @ '' Error during analysis: '' @ str_exn e),
         fst (add_message E w2 (self\<lparr>ml_engine := ml1\<rparr>) ''assistant''
                (PStr (utf8 0x274C @ '' Error during analysis: '' @ str_exn e))),
         enter ''add_message'' w2)"
      by (simp add: handle_analysis_request_def analysis_try_def ts rc call add_message_def Let_def)
    then show ?thesis
      using c2 by (simp add: history_add_message) (metis append_Cons append_assoc)
  next
    case (Inr r)
    then have "handle_analysis_request E w self msg =
        (Inr (analysis_response intro r),
         fst (add_message E w2 (self\<lparr>ml_engine := ml1\<rparr>) ''assistant''
                (PStr (analysis_response intro r))),
         enter ''add_message'' w2)"
      by (simp add: handle_analysis_request_def analysis_try_def ts rc call add_message_def Let_def)
    then show ?thesis
      using c2 by (simp add: history_add_message) (metis append_Cons append_assoc)
  qed
qed

lemma handle_greeting_replies:
  "\<exists>reply self' w' xs.
     handle_greeting E w self = (Inr reply, self', w')
   \<and> conversation_history self' =
       history_after E (conversation_history self) \<lparr>role = ''assistant'', content = PStr reply\<rparr>
   \<and> calls w' = calls w @ ''handle_greeting'' # xs @ [''add_message'']
   \<and> ''add_message'' \<notin> set xs"
proof -
  let ?w0 = "enter ''handle_greeting'' w"
  obtain ts where ts: "dict_getitem simulation_responses ''greeting'' = Inr ts" "ts \<noteq> []"
    using simulation_responses_lookup by blast
  obtain response where rc: "random_choice ts ?w0 = (Inr response, advance ?w0)"
    using random_choice_nonempty [OF ts(2)] by blast
  have "handle_greeting E w self =
        (Inr response, fst (add_message E (advance ?w0) self ''assistant'' (PStr response)),
         enter ''add_message'' (advance ?w0))"
    by (simp add: handle_greeting_def ts rc add_message_def Let_def)
  then show ?thesis
    by (simp add: history_add_message)
qed

lemma handle_general_request_replies:
  "\<exists>reply self' w' xs.
     handle_general_request E w self (PStr m) = (Inr reply, self', w')
   \<and> conversation_history self' =
       history_after E (conversation_history self) \<lparr>role = ''assistant'', content = PStr reply\<rparr>
   \<and> calls w' = calls w @ ''handle_general_request'' # xs @ [''add_message'']
   \<and> ''add_message'' \<notin> set xs"
proof -
  let ?w0 = "enter ''handle_general_request'' w"
  obtain ts where ts: "dict_getitem simulation_responses ''general'' = Inr ts" "ts \<noteq> []"
    using simulation_responses_lookup by blast
  obtain opener where rc: "random_choice ts ?w0 = (Inr opener, advance ?w0)"
    using random_choice_nonempty [OF ts(2)] by blast
  have "\<exists>response w1. handle_general_request E w self (PStr m) =
          (Inr response, fst (add_message E w1 self ''assistant'' (PStr response)),
           enter ''add_message'' w1) \<and> calls w1 = calls ?w0"
    by (auto simp: handle_general_request_def ts rc add_message_def Let_def
             simp del: any_in.simps)
  then show ?thesis
    by (auto simp: history_add_message)
qed


lemma detect_ml_intent_str:
  "detect_ml_intent E w self (PStr m) =
     (Inr (case first_match ml_keywords (lower E m) of
             Some i \<Rightarrow> \<lparr>intent = i, confidence = 8 / 10\<rparr>
           | None \<Rightarrow> \<lparr>intent = ''general'', confidence = 9 / 10\<rparr>),
      self, enter ''detect_ml_intent'' w)"
  by (simp add: detect_ml_intent_def str_lower_def Let_def split: option.splits)

lemma simulate_typing_delay_eq:
  "simulate_typing_delay w self = (self, advance (enter ''simulate_typing_delay'' w))"
  by (simp add: simulate_typing_delay_def random_uniform_def Let_def)

lemma process_dispatch_cases:
  "process_dispatch E w self (PStr m) =
     (let w2 = enter ''detect_ml_intent'' (advance (enter ''simulate_typing_delay'' w));
          i = intent (case first_match ml_keywords (lower E m) of
                        Some i \<Rightarrow> \<lparr>intent = i, confidence = 8 / 10\<rparr>
                      | None \<Rightarrow> \<lparr>intent = ''general'', confidence = 9 / 10\<rparr>)
      in if i = ''greeting'' then handle_greeting E w2 self
         else if i = ''prediction'' then handle_prediction_request E w2 self (PStr m)
         else if i = ''training'' then handle_training_request E w2 self (PStr m)
         else if i = ''analysis'' then handle_analysis_request E w2 self (PStr m)
         else handle_general_request E w2 self (PStr m))"
  by (simp add: process_dispatch_def simulate_typing_delay_eq detect_ml_intent_str Let_def)

lemma process_dispatch_replies:
  "\<exists>reply self' w' xs.
     process_dispatch E w self (PStr m) = (Inr reply, self', w')
   \<and> conversation_history self' =
       history_after E (conversation_history self) \<lparr>role = ''assistant'', content = PStr reply\<rparr>
   \<and> calls w' = calls w @ ''simulate_typing_delay'' # ''detect_ml_intent'' # xs @ [''add_message'']
   \<and> ''add_message'' \<notin> set xs"
proof -
  let ?w2 = "enter ''detect_ml_intent'' (advance (enter ''simulate_typing_delay'' w))"
  have shift: "\<exists>reply self' w' xs.
       out = (Inr reply, self', w')
     \<and> conversation_history self' =
         history_after E (conversation_history self) \<lparr>role = ''assistant'', content = PStr reply\<rparr>
     \<and> calls w' = calls w @ ''simulate_typing_delay'' # ''detect_ml_intent'' # xs @ [''add_message'']
     \<and> ''add_message'' \<notin> set xs"
    if "\<exists>reply self' w' xs.
       out = (Inr reply, self', w')
     \<and> conversation_history self' =
         history_after E (conversation_history self) \<lparr>role = ''assistant'', content = PStr reply\<rparr>
     \<and> calls w' = calls ?w2 @ h # xs @ [''add_message'']
     \<and> ''add_message'' \<notin> set xs" and "h \<noteq> ''add_message''" for out h
  proof -
    from that obtain reply self' w' xs where o: "out = (Inr reply, self', w')"
      and hist: "conversation_history self' =
         history_after E (conversation_history self) \<lparr>role = ''assistant'', content = PStr reply\<rparr>"
      and c: "calls w' = calls ?w2 @ h # xs @ [''add_message'']"
      and n: "''add_message'' \<notin> set xs"
      by blast
    have "calls w' = calls w @ ''simulate_typing_delay'' # ''detect_ml_intent'' # (h # xs) @ [''add_message'']"
      using c by simp
    moreover have "''add_message'' \<notin> set (h # xs)"
      using n that(2) by auto
    ultimately show ?thesis using o hist by blast
  qed
  note g = shift [OF handle_greeting_replies [of E ?w2 self]]
  note p = shift [OF handle_prediction_request_replies [of E ?w2 self "PStr m"]]
  note t = shift [OF handle_training_request_replies [of E ?w2 self "PStr m"]]
  note a = shift [OF handle_analysis_request_replies [of E ?w2 self "PStr m"]]
  note n = shift [OF handle_general_request_replies [of E ?w2 self m]]
  show ?thesis
    unfolding process_dispatch_cases Let_def
    using g p t a n by (simp only: split: if_split) simp
qed


lemma history_after_twice:
  assumes "2 \<le> MAX_CONVERSATION_LENGTH E"
  shows "\<exists>older. history_after E (history_after E h a) b = older @ [a, b]"
proof -
  let ?n = "nat (MAX_CONVERSATION_LENGTH E)"
  have n: "0 < ?n" "2 \<le> ?n" "0 < MAX_CONVERSATION_LENGTH E" using assms by auto
  have "history_after E (history_after E h a) b =
          drop (length (drop (length (h @ [a]) - ?n) (h @ [a]) @ [b]) - ?n)
            (drop (length (h @ [a]) - ?n) (h @ [a]) @ [b])"
    using n(3) by (simp only: history_after_last_n)
  also have "\<dots> = drop (length ((h @ [a]) @ [b]) - ?n) ((h @ [a]) @ [b])"
    using n(1) by (rule drop_drop_append)
  also have "\<dots> = drop (length h + 2 - ?n) h @ [a, b]"
    using n(2) by simp
  finally show ?thesis by blast
qed

lemma process_message_cases:
  "process_message E w self (PStr m) =
     (let w1 = enter ''get_instant_response'' (enter ''add_message'' (enter ''process_message'' w));
          self1 = fst (add_message E w self ''user'' (PStr m))
      in case fst (get_instant_response E w self (PStr m)) of
           Inl e \<Rightarrow> (Inl e, self1, w1)
         | Inr None \<Rightarrow> process_dispatch E w1 self1 (PStr m)
         | Inr (Some response) \<Rightarrow>
             if response \<noteq> [] then
               (Inr response, fst (add_message E w1 self1 ''assistant'' (PStr response)),
                enter ''add_message'' w1)
             else process_dispatch E w1 self1 (PStr m))"
  by (simp add: process_message_def get_instant_response_str add_message_def Let_def
           split: option.splits)

text \<open>
  C9. On every string, \<^verbatim>\<open>process_message\<close> returns a reply and leaves the history that
  two appends make: the user's message, then the reply as the assistant. The first append
  is entered before the cache lookup, the second is the last method entered, and no other
  append is entered in between. With a maximum of at least 2 the history ends with the
  two messages, so its last entry holds the returned reply.
\<close>

theorem process_appends_user_then_reply:
  "\<exists>reply self' w' xs.
     process_message E w self (PStr m) = (Inr reply, self', w')
   \<and> conversation_history self' =
       history_after E
         (history_after E (conversation_history self) \<lparr>role = ''user'', content = PStr m\<rparr>)
         \<lparr>role = ''assistant'', content = PStr reply\<rparr>
   \<and> new_calls w w' =
       [''process_message'', ''add_message'', ''get_instant_response''] @ xs @ [''add_message'']
   \<and> ''add_message'' \<notin> set xs
   \<and> (2 \<le> MAX_CONVERSATION_LENGTH E \<longrightarrow>
        (\<exists>older. conversation_history self' =
           older @ [\<lparr>role = ''user'', content = PStr m\<rparr>,
                    \<lparr>role = ''assistant'', content = PStr reply\<rparr>])
        \<and> content (last (fst (get_conversation_history self'))) = PStr reply)"
proof -
  let ?w1 = "enter ''get_instant_response'' (enter ''add_message'' (enter ''process_message'' w))"
  let ?self1 = "fst (add_message E w self ''user'' (PStr m))"
  let ?u = "\<lparr>role = ''user'', content = PStr m\<rparr>"
  have core: "\<exists>reply self' w' xs.
     process_message E w self (PStr m) = (Inr reply, self', w')
   \<and> conversation_history self' =
       history_after E (history_after E (conversation_history self) ?u)
         \<lparr>role = ''assistant'', content = PStr reply\<rparr>
   \<and> calls w' = calls w @
       [''process_message'', ''add_message'', ''get_instant_response''] @ xs @ [''add_message'']
   \<and> ''add_message'' \<notin> set xs"
  proof -
    obtain reply self' w' xs where d:
      "process_dispatch E ?w1 ?self1 (PStr m) = (Inr reply, self', w')"
      "conversation_history self' =
         history_after E (conversation_history ?self1) \<lparr>role = ''assistant'', content = PStr reply\<rparr>"
      "calls w' = calls ?w1 @ ''simulate_typing_delay'' # ''detect_ml_intent'' # xs @ [''add_message'']"
      "''add_message'' \<notin> set xs"
      using process_dispatch_replies [of E ?w1 ?self1 m] by blast
    have dispatch: "\<exists>reply self' w' xs.
       process_dispatch E ?w1 ?self1 (PStr m) = (Inr reply, self', w')
     \<and> conversation_history self' =
         history_after E (history_after E (conversation_history self) ?u)
           \<lparr>role = ''assistant'', content = PStr reply\<rparr>
     \<and> calls w' = calls w @
         [''process_message'', ''add_message'', ''get_instant_response''] @ xs @ [''add_message'']
     \<and> ''add_message'' \<notin> set xs"
    proof (intro exI conjI)
      show "process_dispatch E ?w1 ?self1 (PStr m) = (Inr reply, self', w')" by (rule d(1))
      show "conversation_history self' =
         history_after E (history_after E (conversation_history self) ?u)
           \<lparr>role = ''assistant'', content = PStr reply\<rparr>"
        using d(2) by (simp add: history_add_message)
      show "calls w' = calls w @
         [''process_message'', ''add_message'', ''get_instant_response'']
           @ (''simulate_typing_delay'' # ''detect_ml_intent'' # xs) @ [''add_message'']"
        using d(3) by simp
      show "''add_message'' \<notin> set (''simulate_typing_delay'' # ''detect_ml_intent'' # xs)"
        using d(4) by simp
    qed
    have hit: "\<exists>reply self' w' xs.
       (Inr response, fst (add_message E ?w1 ?self1 ''assistant'' (PStr response)),
        enter ''add_message'' ?w1) = (Inr reply, self', w')
     \<and> conversation_history self' =
         history_after E (history_after E (conversation_history self) ?u)
           \<lparr>role = ''assistant'', content = PStr reply\<rparr>
     \<and> calls w' = calls w @
         [''process_message'', ''add_message'', ''get_instant_response''] @ xs @ [''add_message'']
     \<and> ''add_message'' \<notin> set xs" for response
      by (intro exI [of _ response]
                exI [of _ "fst (add_message E ?w1 ?self1 ''assistant'' (PStr response))"]
                exI [of _ "enter ''add_message'' ?w1"] exI [of _ "[]"])
         (simp add: history_add_message)
    show ?thesis
      unfolding process_message_cases Let_def
      using dispatch hit
      by (simp only: get_instant_response_str fst_conv sum.case split: option.split if_split) simp
  qed
  then obtain reply self' w' xs where r:
    "process_message E w self (PStr m) = (Inr reply, self', w')"
    "conversation_history self' =
       history_after E (history_after E (conversation_history self) ?u)
         \<lparr>role = ''assistant'', content = PStr reply\<rparr>"
    "calls w' = calls w @
       [''process_message'', ''add_message'', ''get_instant_response''] @ xs @ [''add_message'']"
    "''add_message'' \<notin> set xs"
    by blast
  have "(\<exists>older. conversation_history self' =
           older @ [?u, \<lparr>role = ''assistant'', content = PStr reply\<rparr>])
        \<and> content (last (fst (get_conversation_history self'))) = PStr reply"
    if "2 \<le> MAX_CONVERSATION_LENGTH E"
  proof -
    from history_after_twice [OF that] r(2)
    obtain older where o: "conversation_history self' =
        older @ [?u, \<lparr>role = ''assistant'', content = PStr reply\<rparr>]"
      by metis
    then show ?thesis by (simp add: get_conversation_history_def)
  qed
  with r show ?thesis
    by (intro exI [of _ reply] exI [of _ self'] exI [of _ w'] exI [of _ xs])
       (simp add: new_calls_def)
qed


theorem process_appends_user_then_reply_witness:
  "\<exists>reply self' w'.
     process_message shipped w_init new_chatbot (PStr ''good morning'') = (Inr reply, self', w')
   \<and> content (last (fst (get_conversation_history self'))) = PStr reply"
proof -
  have "2 \<le> MAX_CONVERSATION_LENGTH shipped"
    by (simp add: shipped_def)
  with process_appends_user_then_reply [of shipped w_init new_chatbot "''good morning''"]
  show ?thesis by blast
qed

lemma norm_predict_model:
  "lower shipped ''predict model'' = ''predict model''"
  "strip shipped ''predict model'' = ''predict model''"
  by code_simp+

lemma norm_train_a_new_model:
  "lower shipped ''Train a new model'' = ''train a new model''"
  "strip shipped ''train a new model'' = ''train a new model''"
  by code_simp+

lemma miss_train_a_new_model:
  "fst (get_instant_response shipped w self (PStr ''Train a new model'')) = Inr None"
  by (simp add: get_instant_response_str norm_train_a_new_model dict_has_def instant_cache_def)

text \<open>
  C2, as stated: a message with a training keyword and no instant-cache match is
  classified as \<open>training\<close>. The message \<open>predict model\<close> contains \<open>model\<close>, misses the
  cache, and is classified as \<open>prediction\<close>.
\<close>

theorem training_intent_counterexample:
  "contains ''model'' (lower shipped ''predict model'')
   \<and> fst (get_instant_response shipped w_init new_chatbot (PStr ''predict model'')) = Inr None
   \<and> fst (detect_ml_intent shipped w_init new_chatbot (PStr ''predict model''))
       = Inr \<lparr>intent = ''prediction'', confidence = 8 / 10\<rparr>"
  by (simp add: get_instant_response_str detect_ml_intent_str norm_predict_model dict_has_def
        instant_cache_def ml_keywords_def)

text \<open>
  C2, amended. A message whose lowercased form contains a training keyword and none of
  the prediction keywords (which the classifier scans first), and which misses the
  instant cache, is classified as \<open>training\<close>, and \<^verbatim>\<open>process_message\<close> passes it to the
  training handler.
\<close>

theorem training_intent:
  assumes "\<exists>kw \<in> set [''train'', ''training'', ''learn'', ''model'', ''optimize''].
             contains kw (lower E m)"
    and "\<not> (\<exists>kw \<in> set [''predict'', ''forecast'', ''prediction'', ''future'', ''tomorrow'',
                         ''next'']. contains kw (lower E m))"
    and "fst (get_instant_response E w self (PStr m)) = Inr None"
  shows "fst (detect_ml_intent E w self (PStr m)) = Inr \<lparr>intent = ''training'', confidence = 8 / 10\<rparr>
       \<and> (\<exists>reply self' w' xs.
            process_message E w self (PStr m) = (Inr reply, self', w')
          \<and> new_calls w w' =
              [''process_message'', ''add_message'', ''get_instant_response'',
               ''simulate_typing_delay'', ''detect_ml_intent'', ''handle_training_request''] @ xs)"
proof -
  let ?w1 = "enter ''get_instant_response'' (enter ''add_message'' (enter ''process_message'' w))"
  let ?w2 = "enter ''detect_ml_intent'' (advance (enter ''simulate_typing_delay'' ?w1))"
  let ?self1 = "fst (add_message E w self ''user'' (PStr m))"
  from assms(1,2) have fm: "first_match ml_keywords (lower E m) = Some ''training''"
    by (auto simp: ml_keywords_def)
  then have 1: "fst (detect_ml_intent E w self (PStr m))
                  = Inr \<lparr>intent = ''training'', confidence = 8 / 10\<rparr>"
    by (simp add: detect_ml_intent_str)
  have pm: "process_message E w self (PStr m) = handle_training_request E ?w2 ?self1 (PStr m)"
    using assms(3) fm by (simp add: process_message_cases process_dispatch_cases Let_def)
  obtain reply self' w' xs where h:
    "handle_training_request E ?w2 ?self1 (PStr m) = (Inr reply, self', w')"
    "calls w' = calls ?w2 @ ''handle_training_request'' # xs @ [''add_message'']"
    using handle_training_request_replies [of E ?w2 ?self1 "PStr m"] by blast
  have nc: "new_calls w w' =
          [''process_message'', ''add_message'', ''get_instant_response'',
           ''simulate_typing_delay'', ''detect_ml_intent'', ''handle_training_request'']
          @ (xs @ [''add_message''])"
    using h(2) by (simp add: new_calls_def)
  have 2: "\<exists>reply self' w' xs.
            process_message E w self (PStr m) = (Inr reply, self', w')
          \<and> new_calls w w' =
              [''process_message'', ''add_message'', ''get_instant_response'',
               ''simulate_typing_delay'', ''detect_ml_intent'', ''handle_training_request''] @ xs"
    by (intro exI [of _ reply] exI [of _ self'] exI [of _ w'] exI [of _ "xs @ [''add_message'']"]
          conjI nc) (simp only: pm h(1))
  from 1 2 show ?thesis by (rule conjI)
qed

theorem training_intent_witness:
  "fst (detect_ml_intent shipped w_init new_chatbot (PStr ''Train a new model''))
     = Inr \<lparr>intent = ''training'', confidence = 8 / 10\<rparr>
   \<and> (\<exists>reply self' w' xs.
        process_message shipped w_init new_chatbot (PStr ''Train a new model'')
          = (Inr reply, self', w')
      \<and> new_calls w_init w' =
          [''process_message'', ''add_message'', ''get_instant_response'',
           ''simulate_typing_delay'', ''detect_ml_intent'', ''handle_training_request''] @ xs)"
proof -
  have a: "\<exists>kw \<in> set [''train'', ''training'', ''learn'', ''model'', ''optimize''].
             contains kw (lower shipped ''Train a new model'')"
    by (simp add: norm_train_a_new_model)
  have b: "\<not> (\<exists>kw \<in> set [''predict'', ''forecast'', ''prediction'', ''future'', ''tomorrow'',
                         ''next'']. contains kw (lower shipped ''Train a new model''))"
    by (simp add: norm_train_a_new_model)
  show ?thesis
    by (rule training_intent [OF a b miss_train_a_new_model])
qed

lemma norm_predict_next_week:
  "lower shipped ''predict next week'' = ''predict next week''"
  "strip shipped ''predict next week'' = ''predict next week''"
  by code_simp+

lemma miss_predict_next_week:
  "fst (get_instant_response shipped w self (PStr ''predict next week'')) = Inr None"
  by (simp add: get_instant_response_str norm_predict_next_week dict_has_def instant_cache_def)

lemma max_shipped: "MAX_CONVERSATION_LENGTH shipped = 50"
  by (simp add: shipped_def)

text \<open>
  C4. When \<^verbatim>\<open>predict_next_values\<close> raises in the call that
  \<^verbatim>\<open>process_message("predict next week")\<close> makes, \<^verbatim>\<open>process_message\<close> raises nothing:
  it returns the error marker followed by the exception's text, and the last entry of
  the history is that reply.
\<close>

theorem prediction_failure_is_a_reply:
  assumes "fst (predict_next_values (collaborator_call_world ''handle_prediction_request'' w)
                  (ml_engine self) 7) = Inl e"
  shows "\<exists>reply self' w'.
           process_message shipped w self (PStr ''predict next week'') = (Inr reply, self', w')
         \<and> reply = utf8 0x274C @ '' Error during prediction: '' @ str_exn e
         \<and> contains (utf8 0x274C @ '' Error during prediction: '') reply
         \<and> fst (get_conversation_history self') \<noteq> []
         \<and> last (fst (get_conversation_history self'))
             = \<lparr>role = ''assistant'', content = PStr reply\<rparr>"
proof -
  let ?w1 = "enter ''get_instant_response'' (enter ''add_message'' (enter ''process_message'' w))"
  let ?w2 = "enter ''detect_ml_intent'' (advance (enter ''simulate_typing_delay'' ?w1))"
  let ?wc = "collaborator_call_world ''handle_prediction_request'' w"
  let ?self1 = "fst (add_message shipped w self ''user'' (PStr ''predict next week''))"
  let ?reply = "utf8 0x274C @ '' Error during prediction: '' @ str_exn e"
  have fm: "first_match ml_keywords (lower shipped ''predict next week'') = Some ''prediction''"
    by (simp add: norm_predict_next_week ml_keywords_def)
  have pm: "process_message shipped w self (PStr ''predict next week'') =
              handle_prediction_request shipped ?w2 ?self1 (PStr ''predict next week'')"
    using fm by (simp add: process_message_cases process_dispatch_cases miss_predict_next_week Let_def)
  obtain ts where ts: "dict_getitem simulation_responses ''prediction'' = Inr ts" "ts \<noteq> []"
    using simulation_responses_lookup by blast
  have wc: "advance (enter ''handle_prediction_request'' ?w2) = ?wc"
    by (simp add: collaborator_call_world_def)
  obtain intro where rc:
    "random_choice ts (enter ''handle_prediction_request'' ?w2) = (Inr intro, ?wc)"
    using random_choice_nonempty [OF ts(2)] wc by metis
  obtain ml1 w3 where call:
    "predict_next_values ?wc (ml_engine self) 7 = (Inl e, ml1, w3)"
    using assms by (cases "predict_next_values ?wc (ml_engine self) 7") simp
  let ?self' = "fst (add_message shipped w3 (?self1\<lparr>ml_engine := ml1\<rparr>) ''assistant'' (PStr ?reply))"
  have h: "handle_prediction_request shipped ?w2 ?self1 (PStr ''predict next week'') =
             (Inr ?reply, ?self', enter ''add_message'' w3)"
    by (simp add: handle_prediction_request_def prediction_try_def ts rc call add_message_ml
          add_message_world Let_def split_beta prod_eq_iff)
  have hist: "conversation_history ?self' =
                history_after shipped (conversation_history ?self1)
                  \<lparr>role = ''assistant'', content = PStr ?reply\<rparr>"
    by (simp add: history_add_message)
  have "0 \<le> MAX_CONVERSATION_LENGTH shipped"
    by (simp add: max_shipped)
  from history_after_last [OF this] hist
  have last: "conversation_history ?self' \<noteq> []"
    "last (conversation_history ?self') = \<lparr>role = ''assistant'', content = PStr ?reply\<rparr>"
    by simp_all
  have c: "contains (utf8 0x274C @ '' Error during prediction: '') ?reply"
    using contains_here [of "utf8 0x274C @ '' Error during prediction: ''" "str_exn e"] by simp
  show ?thesis
    by (intro exI [of _ ?reply] exI [of _ ?self'] exI [of _ "enter ''add_message'' w3"] conjI)
       (simp_all only: pm h c last get_conversation_history_def fst_conv not_False_eq_True)
qed

lemma broken_prediction_fails:
  "fst (predict_next_values w (ml_engine broken_chatbot) 7) = Inl ZeroDivisionError"
  by (simp add: predict_next_values_def train_model_def broken_chatbot_def ChatbotEngine_init_def
        MLEngine_init_def py_truediv_def Let_def datetime_now_def random_uniform_def
        split: prod.splits)

theorem prediction_failure_is_a_reply_witness:
  "\<exists>reply self' w'.
     process_message shipped w_init broken_chatbot (PStr ''predict next week'')
       = (Inr reply, self', w')
   \<and> reply = utf8 0x274C @ '' Error during prediction: division by zero''
   \<and> last (fst (get_conversation_history self')) = \<lparr>role = ''assistant'', content = PStr reply\<rparr>"
  using prediction_failure_is_a_reply [OF broken_prediction_fails, of w_init]
  by auto


lemma norm_hello:
  "lower shipped ''hello'' = ''hello''"
  "strip shipped ''hello'' = ''hello''"
  by code_simp+

subsection \<open>The float model\<close>

text \<open>
  \<open>double_round\<close> returns a number with a significand of at most 53 bits at the
  exponent of its argument, within half a unit in the last place of it.
\<close>

lemma log2_floor_bounds:
  "0 < n \<Longrightarrow> 2 ^ log2_floor n \<le> n \<and> n < 2 ^ Suc (log2_floor n)"
proof (induction n rule: log2_floor.induct)
  case (1 n)
  show ?case
  proof (cases "n < 2")
    case True
    with "1.prems" have "n = 1" by simp
    then show ?thesis by (simp add: log2_floor.simps)
  next
    case False
    then have pos: "0 < n div 2" by simp
    from "1.IH" [OF False pos]
    have IH: "2 ^ log2_floor (n div 2) \<le> n div 2" "n div 2 < 2 ^ Suc (log2_floor (n div 2))"
      by simp_all
    have eq: "log2_floor n = Suc (log2_floor (n div 2))"
      using False by (simp add: log2_floor.simps)
    have "2 * 2 ^ log2_floor (n div 2) \<le> n" using IH(1) by linarith
    moreover have "n < 2 * 2 ^ Suc (log2_floor (n div 2))" using IH(2) by linarith
    ultimately show ?thesis by (simp add: eq)
  qed
qed

lemma binary_exponent_bounds:
  assumes "0 < x"
  shows "2 powi binary_exponent x \<le> x \<and> x < 2 powi (binary_exponent x + 1)"
proof (cases "1 \<le> x")
  case True
  let ?n = "nat \<lfloor>x\<rfloor>"
  have n: "0 < ?n" using True by simp
  have e: "binary_exponent x = int (log2_floor ?n)"
    using True by (simp add: binary_exponent_def)
  from log2_floor_bounds [OF n]
  have b: "2 ^ log2_floor ?n \<le> ?n" "?n < 2 ^ Suc (log2_floor ?n)" by simp_all
  have "(of_nat ?n :: rat) \<le> x" using True by (simp add: of_nat_nat)
  moreover have "(2::rat) ^ log2_floor ?n \<le> of_nat ?n"
    using b(1) by (metis of_nat_le_iff of_nat_numeral of_nat_power)
  ultimately have lo: "(2::rat) ^ log2_floor ?n \<le> x" by linarith
  have "?n + 1 \<le> 2 ^ Suc (log2_floor ?n)" using b(2) by simp
  then have "(of_nat (?n + 1) :: rat) \<le> 2 ^ Suc (log2_floor ?n)"
    by (metis of_nat_le_iff of_nat_numeral of_nat_power)
  moreover have "x < of_nat (?n + 1)"
    using True by (simp add: of_nat_nat) linarith
  ultimately have hi: "x < (2::rat) ^ Suc (log2_floor ?n)" by linarith
  have "int (log2_floor ?n) + 1 = int (Suc (log2_floor ?n))" by simp
  then show ?thesis using lo hi unfolding e by (simp only: power_int_of_nat)
next
  case False
  let ?y = "1 / x"
  let ?c = "nat \<lceil>?y\<rceil>"
  let ?k = "log2_floor (?c - 1)"
  from False assms have y: "1 < ?y" by simp
  then have "(1::int) < \<lceil>?y\<rceil>" by (simp only: less_ceiling_iff of_int_1)
  then have c2: "2 \<le> ?c" by linarith
  then have c1: "0 < ?c - 1" by linarith
  have e: "binary_exponent x = - int (Suc ?k)"
    using False by (simp add: binary_exponent_def)
  from log2_floor_bounds [OF c1]
  have b: "2 ^ ?k \<le> ?c - 1" "?c - 1 < 2 ^ Suc ?k" by simp_all
  have cle: "?c \<le> 2 ^ Suc ?k" using b(2) c2 by linarith
  have cgt: "2 ^ ?k < ?c" using b(1) c2 by linarith
  have "?y \<le> of_nat ?c" using y by (simp add: of_nat_nat) 
  moreover have "(of_nat ?c :: rat) \<le> 2 ^ Suc ?k"
    using cle by (metis of_nat_le_iff of_nat_numeral of_nat_power)
  ultimately have yle: "?y \<le> 2 ^ Suc ?k" by linarith
  have ygt: "2 ^ ?k < ?y"
  proof (rule ccontr)
    assume "\<not> 2 ^ ?k < ?y"
    then have "?y \<le> of_int (2 ^ ?k)" by simp
    then have "\<lceil>?y\<rceil> \<le> 2 ^ ?k" by (simp only: ceiling_le_iff)
    then have "?c \<le> 2 ^ ?k" by (simp add: nat_le_iff)
    with cgt show False by simp
  qed
  have p1: "(2::rat) powi (- int (Suc ?k)) = 1 / 2 ^ Suc ?k"
    by (simp only: power_int_minus power_int_of_nat inverse_eq_divide)
  have "- int (Suc ?k) + 1 = - int ?k" by simp
  then have p2: "(2::rat) powi (- int (Suc ?k) + 1) = 1 / 2 ^ ?k"
    by (simp only: power_int_minus power_int_of_nat inverse_eq_divide)
  have lo: "2 powi (- int (Suc ?k)) \<le> x"
  proof -
    have "1 / 2 ^ Suc ?k \<le> x" using yle assms
      by (simp add: field_simps)
    then show ?thesis by (simp only: p1)
  qed
  have hi: "x < 2 powi (- int (Suc ?k) + 1)"
  proof -
    have "x < 1 / 2 ^ ?k" using ygt assms
      by (simp add: field_simps)
    then show ?thesis by (simp only: p2)
  qed
  from lo hi show ?thesis unfolding e by (rule conjI)
qed

text \<open>
  The doubles of this development, as CPython has them: the literal \<^verbatim>\<open>0.918\<close>, its
  product with 100, and a value near a tie, \<^verbatim>\<open>0.8555\<close>, whose product with 100 falls
  below 85.55 and prints as \<open>85.5%\<close>.
\<close>

lemma literal_0918: "py_float (918 / 1000) = 8268608915852231 / 9007199254740992"
  by code_simp

lemma product_0918: "float_mul (py_float (918 / 1000)) 100 = 6459850715509555 / 70368744177664"
  by code_simp

lemma near_tie_percent: "fmt_percent 1 (py_float (8555 / 10000)) = ''85.5%''"
  by code_simp


lemma round_half_even_error: "\<bar>of_int (round_half_even q) - q\<bar> \<le> 1 / 2"
proof -
  have "of_int \<lfloor>q\<rfloor> \<le> q" "q < of_int \<lfloor>q\<rfloor> + 1" by linarith+
  then show ?thesis
    by (auto simp: round_half_even_def Let_def)
qed

lemma sgn_abs_diff: "(x::rat) \<noteq> 0 \<Longrightarrow> \<bar>sgn x * a - x\<bar> = \<bar>a - \<bar>x\<bar>\<bar>"
  by (cases "0 < x") (auto simp: sgn_if)

lemma double_round_error:
  assumes "x \<noteq> 0"
  shows "\<bar>double_round x - x\<bar> \<le> 2 powi (max (binary_exponent \<bar>x\<bar>) (- 1022) - 52) / 2"
proof -
  let ?ulp = "(2::rat) powi (max (binary_exponent \<bar>x\<bar>) (- 1022) - 52)"
  let ?m = "round_half_even (\<bar>x\<bar> / ?ulp)"
  have ulp: "0 < ?ulp" by simp
  have dr: "double_round x = sgn x * of_int ?m * ?ulp"
    using assms by (simp add: double_round_def Let_def)
  have "\<bar>double_round x - x\<bar> = \<bar>of_int ?m * ?ulp - \<bar>x\<bar>\<bar>"
    unfolding dr mult.assoc using assms by (rule sgn_abs_diff)
  also have "of_int ?m * ?ulp - \<bar>x\<bar> = (of_int ?m - \<bar>x\<bar> / ?ulp) * ?ulp"
    using ulp by (simp add: field_simps)
  also have "\<bar>\<dots>\<bar> = \<bar>of_int ?m - \<bar>x\<bar> / ?ulp\<bar> * ?ulp"
    using ulp by (simp add: abs_mult)
  also have "\<dots> \<le> 1 / 2 * ?ulp"
    using round_half_even_error [of "\<bar>x\<bar> / ?ulp"] ulp by (intro mult_right_mono) simp_all
  finally show ?thesis by simp
qed


lemma round_half_even_range:
  assumes "0 \<le> q" and "q \<le> of_int n"
  shows "0 \<le> round_half_even q \<and> round_half_even q \<le> n"
proof -
  have f: "of_int \<lfloor>q\<rfloor> \<le> q" "q < of_int \<lfloor>q\<rfloor> + 1" by linarith+
  have "0 \<le> \<lfloor>q\<rfloor>" using assms(1) by simp
  moreover have "\<lfloor>q\<rfloor> \<le> n" using assms(2) by (simp add: floor_le_iff)
  moreover have "\<lfloor>q\<rfloor> + 1 \<le> n" if "q \<noteq> of_int \<lfloor>q\<rfloor>"
  proof -
    have "of_int \<lfloor>q\<rfloor> < q" by (rule le_neq_trans [OF f(1) not_sym [OF that]])
    with assms(2) have "(of_int \<lfloor>q\<rfloor> :: rat) < of_int n" by linarith
    then show ?thesis by simp
  qed
  ultimately show ?thesis
    by (auto simp: round_half_even_def Let_def)
qed

lemma double_round_significand:
  "\<exists>m. double_round x = of_int m * 2 powi (max (binary_exponent \<bar>x\<bar>) (- 1022) - 52)
       \<and> \<bar>m\<bar> \<le> 2 ^ 53"
proof (cases "x = 0")
  case True
  then show ?thesis by (intro exI [of _ 0]) (simp add: double_round_def)
next
  case False
  let ?e = "max (binary_exponent \<bar>x\<bar>) (- 1022)"
  let ?ulp = "(2::rat) powi (?e - 52)"
  let ?m = "round_half_even (\<bar>x\<bar> / ?ulp)"
  have ulp: "0 < ?ulp" by simp
  from False have pos: "0 < \<bar>x\<bar>" by simp
  have "\<bar>x\<bar> < 2 powi (binary_exponent \<bar>x\<bar> + 1)"
    using binary_exponent_bounds [OF pos] by simp
  also have "\<dots> \<le> 2 powi (?e + 1)"
    by (rule power_int_increasing) simp_all
  also have "\<dots> = 2 ^ 53 * ?ulp"
  proof -
    have "?e + 1 = 53 + (?e - 52)" by simp
    then have "(2::rat) powi (?e + 1) = 2 powi 53 * 2 powi (?e - 52)"
      by (simp only: power_int_add [of "2::rat", simplified])
    then show ?thesis by simp
  qed
  finally have "\<bar>x\<bar> / ?ulp \<le> of_int (2 ^ 53)"
    using ulp by (simp add: field_simps)
  moreover have "0 \<le> \<bar>x\<bar> / ?ulp" using ulp by simp
  ultimately have r: "0 \<le> ?m" "?m \<le> 2 ^ 53"
    using round_half_even_range [of "\<bar>x\<bar> / ?ulp" "2 ^ 53"] by simp_all
  define s :: int where "s = (if x < 0 then - 1 else 1)"
  have s: "\<bar>s\<bar> = 1" by (simp add: s_def)
  have "double_round x = of_int (s * ?m) * ?ulp"
    using False by (simp add: double_round_def Let_def sgn_if s_def)
  moreover have "\<bar>s * ?m\<bar> \<le> 2 ^ 53"
    using r s by (simp add: abs_mult)
  ultimately show ?thesis by blast
qed

lemma fmt_score: "fmt_percent 1 (py_float (918 / 1000)) = ''91.8%''"
  by code_simp

lemma fmt_elapsed: "fmt_fixed 1 (py_float (124 / 10)) = ''12.4''"
  by code_simp

lemma training_response_score:
  "contains (fmt_percent 1 (t_score r)) (training_response intro r)"
  unfolding training_response_def by (rule contains_here | rule contains_skip)+

lemma training_response_time:
  "contains (fmt_fixed 1 (t_training_time r)) (training_response intro r)"
  unfolding training_response_def by (rule contains_here | rule contains_skip)+

lemma process_hello:
  "fst (process_message shipped w self (PStr ''hello'')) =
     Inr (''Hello! '' @ utf8 0x1F44B
          @ '' I'm your AI-powered predictive assistant! Ready for instant predictions?'')"
  by (simp add: process_message_cases get_instant_response_str norm_hello dict_has_def
        instant_cache_def Let_def)

text \<open>
  C6, as stated: the reply to \<open>hello\<close> is one of the greeting templates. It is the
  canned reply of the instant cache, which is none of the three templates.
\<close>

theorem hello_reply_counterexample:
  "fst (process_message shipped w_init new_chatbot (PStr ''hello'')) =
     Inr (''Hello! '' @ utf8 0x1F44B
          @ '' I'm your AI-powered predictive assistant! Ready for instant predictions?'')
   \<and> dict_getitem simulation_responses ''greeting'' =
       Inr [''Hello! '' @ utf8 0x1F44B
              @ '' I'm your AI-powered predictive assistant! How can I help you today?'',
            ''Hi there! '' @ utf8 0x1F916 @ '' Ready to explore data predictions together?'',
            ''Welcome! I'm here to help with ML analysis and predictions!'']
   \<and> ''Hello! '' @ utf8 0x1F44B
        @ '' I'm your AI-powered predictive assistant! Ready for instant predictions?''
     \<notin> set [''Hello! '' @ utf8 0x1F44B
              @ '' I'm your AI-powered predictive assistant! How can I help you today?'',
            ''Hi there! '' @ utf8 0x1F916 @ '' Ready to explore data predictions together?'',
            ''Welcome! I'm here to help with ML analysis and predictions!'']"
  by (simp add: process_hello dict_getitem_def simulation_responses_def)

text \<open>
  C6, amended. The reply to \<open>hello\<close> is the instant cache's canned reply for the key
  \<open>hello\<close>. The reply to \<open>Train a new model\<close>, when the \<^verbatim>\<open>train_model\<close> call it makes
  returns the floats \<^verbatim>\<open>0.918\<close> as score and \<^verbatim>\<open>12.4\<close> as training time, contains
  \<open>91.8%\<close> and \<open>12.4\<close>.
\<close>

theorem hello_and_training_replies:
  "fst (process_message shipped w self (PStr ''hello'')) =
     Inr (''Hello! '' @ utf8 0x1F44B
          @ '' I'm your AI-powered predictive assistant! Ready for instant predictions?'')
   \<and> (fst (train_model (collaborator_call_world ''handle_training_request'' w) (ml_engine self))
         = Inr r
       \<and> t_score r = py_float (918 / 1000) \<and> t_training_time r = py_float (124 / 10) \<longrightarrow>
       (\<exists>reply. fst (process_message shipped w self (PStr ''Train a new model'')) = Inr reply
          \<and> contains ''91.8%'' reply \<and> contains ''12.4'' reply))"
proof (intro conjI impI)
  show "fst (process_message shipped w self (PStr ''hello'')) =
     Inr (''Hello! '' @ utf8 0x1F44B
          @ '' I'm your AI-powered predictive assistant! Ready for instant predictions?'')"
    by (rule process_hello)
next
  let ?w1 = "enter ''get_instant_response'' (enter ''add_message'' (enter ''process_message'' w))"
  let ?w2 = "enter ''detect_ml_intent'' (advance (enter ''simulate_typing_delay'' ?w1))"
  let ?wc = "collaborator_call_world ''handle_training_request'' w"
  let ?self1 = "fst (add_message shipped w self ''user'' (PStr ''Train a new model''))"
  assume a: "fst (train_model ?wc (ml_engine self)) = Inr r
             \<and> t_score r = py_float (918 / 1000) \<and> t_training_time r = py_float (124 / 10)"
  have fm: "first_match ml_keywords (lower shipped ''Train a new model'') = Some ''training''"
    by (simp add: norm_train_a_new_model ml_keywords_def)
  have pm: "process_message shipped w self (PStr ''Train a new model'') =
              handle_training_request shipped ?w2 ?self1 (PStr ''Train a new model'')"
    using fm by (simp add: process_message_cases process_dispatch_cases miss_train_a_new_model Let_def)
  obtain ts where ts: "dict_getitem simulation_responses ''training'' = Inr ts" "ts \<noteq> []"
    using simulation_responses_lookup by blast
  have wc: "advance (enter ''handle_training_request'' ?w2) = ?wc"
    by (simp add: collaborator_call_world_def)
  obtain intro where rc:
    "random_choice ts (enter ''handle_training_request'' ?w2) = (Inr intro, ?wc)"
    using random_choice_nonempty [OF ts(2)] wc by metis
  obtain ml1 w3 where call: "train_model ?wc (ml_engine self) = (Inr r, ml1, w3)"
    using a by (cases "train_model ?wc (ml_engine self)") simp
  have h: "fst (handle_training_request shipped ?w2 ?self1 (PStr ''Train a new model'')) =
             Inr (training_response intro r)"
    by (simp add: handle_training_request_def training_try_def ts rc call add_message_ml
          Let_def split_beta)
  have "contains ''91.8%'' (training_response intro r)"
    using training_response_score [of r intro] a by (simp only: fmt_score)
  moreover have "contains ''12.4'' (training_response intro r)"
    using training_response_time [of r intro] a by (simp only: fmt_elapsed)
  ultimately show "\<exists>reply. fst (process_message shipped w self (PStr ''Train a new model'')) = Inr reply
          \<and> contains ''91.8%'' reply \<and> contains ''12.4'' reply"
    using pm h by (intro exI [of _ "training_response intro r"]) simp
qed

lemma demo_training:
  "\<exists>r. fst (train_model (collaborator_call_world ''handle_training_request'' w_training)
               (ml_engine new_chatbot)) = Inr r
      \<and> t_score r = py_float (918 / 1000) \<and> t_training_time r = py_float (124 / 10)"
  by (simp add: train_model_def collaborator_call_world_def w_training_def new_chatbot_def
        ChatbotEngine_init_def MLEngine_init_def sample_point_def py_truediv_def Let_def
        datetime_now_def random_uniform_def advance_def enter_def split: prod.splits)
     (simp add: field_simps)

theorem hello_and_training_replies_witness:
  "\<exists>reply. fst (process_message shipped w_training new_chatbot (PStr ''Train a new model''))
             = Inr reply
      \<and> contains ''91.8%'' reply \<and> contains ''12.4'' reply"
proof -
  from demo_training obtain r where
    "fst (train_model (collaborator_call_world ''handle_training_request'' w_training)
            (ml_engine new_chatbot)) = Inr r
     \<and> t_score r = py_float (918 / 1000) \<and> t_training_time r = py_float (124 / 10)"
    by blast
  with hello_and_training_replies [of w_training new_chatbot r] show ?thesis
    by blast
qed

text \<open>
  C7, as stated: a malformed message is rejected before any processing, with nothing
  appended to the history. The message \<open>123\<close> (a number, not a string) is appended as a
  user entry and reaches the cache lookup before the request fails.
\<close>

theorem malformed_message_counterexample:
  "fst (chat_endpoint shipped w_init new_chatbot [(''message'', PInt 123)]) =
     Inl (HTTPException 500 (''Erreur de chat: '' @ str_exn (AttributeError ''int'' ''lower'')))
   \<and> conversation_history new_chatbot = []
   \<and> conversation_history (fst (snd (chat_endpoint shipped w_init new_chatbot
        [(''message'', PInt 123)]))) = [\<lparr>role = ''user'', content = PInt 123\<rparr>]
   \<and> new_calls w_init (snd (snd (chat_endpoint shipped w_init new_chatbot
        [(''message'', PInt 123)]))) =
       [''chat_endpoint'', ''process_message'', ''add_message'', ''get_instant_response'']"
  by (simp add: chat_endpoint_def chat_try_def dict_get_def process_message_def
        get_instant_response_def str_lower_def add_message_def new_calls_def Let_def
        new_chatbot_def ChatbotEngine_init_def shipped_def w_init_def enter_def)

text \<open>
  C7, amended. A request whose message is absent or empty (false in Python's truth test)
  is rejected with an \<^verbatim>\<open>HTTPException\<close> before any processing: the chatbot is left as it
  was, nothing is drawn from the random generator, and no method of the chatbot is
  entered.
\<close>

theorem empty_message_rejected:
  assumes "\<not> truthy (dict_get data ''message'' (PStr []))"
  shows "\<exists>status detail w'.
           chat_endpoint E w chatbot data = (Inl (HTTPException status detail), chatbot, w')
         \<and> new_calls w w' = [''chat_endpoint'']
         \<and> tick w' = tick w"
  using assms
  by (simp add: chat_endpoint_def chat_try_def Let_def new_calls_def enter_def)

theorem empty_message_rejected_witness:
  "(\<exists>status detail w'.
      chat_endpoint shipped w_init new_chatbot [(''message'', PStr [])]
        = (Inl (HTTPException status detail), new_chatbot, w')
    \<and> new_calls w_init w' = [''chat_endpoint''])
   \<and> (\<exists>status detail w'.
      chat_endpoint shipped w_init new_chatbot []
        = (Inl (HTTPException status detail), new_chatbot, w')
    \<and> new_calls w_init w' = [''chat_endpoint''])"
proof -
  have a: "\<not> truthy (dict_get [(''message'', PStr [])] ''message'' (PStr []))"
    by (simp add: dict_get_def)
  have b: "\<not> truthy (dict_get ([] :: pyval dict) ''message'' (PStr []))"
    by (simp add: dict_get_def)
  from empty_message_rejected [OF a, of shipped w_init new_chatbot]
       empty_message_rejected [OF b, of shipped w_init new_chatbot]
  show ?thesis by blast
qed


lemma train_model_success:
  assumes "train_model w self = (Inr tr, self1, w1)"
  shows "is_trained self1" and "dict_has (model_data self1) ''trend_slope''"
    and "model_data self1 \<noteq> []"
  using assms
  by (auto simp: train_model_def Let_def dict_has_def split: sum.splits prod.splits)

lemma predict_loop_success:
  "predict_loop self lv idx acc w = (Inr ps, w1) \<Longrightarrow>
   length ps = length acc + length idx
   \<and> (idx \<noteq> [] \<longrightarrow> dict_has (model_data self) ''trend_slope'')"
proof (induction idx arbitrary: acc w)
  case Nil
  then show ?case by simp
next
  case (Cons i rest)
  show ?case
  proof (cases "dict_getitem (model_data self) ''trend_slope''")
    case (Inl e)
    with Cons.prems show ?thesis by simp
  next
    case (Inr slope)
    then have has: "dict_has (model_data self) ''trend_slope''"
      by (auto simp: dict_getitem_def dict_has_def split: option.splits)
    from Cons.prems Inr obtain acc' w' where
      "predict_loop self lv rest acc' w' = (Inr ps, w1)" "length acc' = Suc (length acc)"
      by (auto simp: Let_def split: prod.splits)
    from Cons.IH [OF this(1)] this(2) has show ?thesis by simp
  qed
qed

lemma predict_body_success:
  assumes "predict_body w self n = (Inr r, self1, w1)"
  shows "self1 = self" and "dict_has (model_data self) ''trend_slope''"
proof -
  from assms obtain d where d: "list_last (historical_data self) = Inr d"
    by (cases "list_last (historical_data self)") (auto simp: predict_body_def)
  obtain x w2 where loop0: "predict_loop self (dp_value d) [0..<nat n] [] w = (x, w2)"
    by (cases "predict_loop self (dp_value d) [0..<nat n] [] w") auto
  with assms d obtain ps where ps: "x = Inr ps"
    by (cases x) (auto simp: predict_body_def)
  have avg: "length ps \<noteq> 0"
  proof
    assume "length ps = 0"
    then have "py_truediv (sum_list ps) (of_nat (length ps)) = Inl ZeroDivisionError"
      by (simp add: py_truediv_def)
    with assms d loop0 ps show False
      by (simp add: predict_body_def)
  qed
  then obtain q where q: "py_truediv (sum_list ps) (of_nat (length ps)) = Inr q"
    by (simp add: py_truediv_def)
  from assms d loop0 ps q show "self1 = self"
    by (simp add: predict_body_def Let_def split_beta)
  from predict_loop_success [of self "dp_value d" "[0..<nat n]" "[]" w ps w2] loop0 ps avg
  show "dict_has (model_data self) ''trend_slope''"
    by auto
qed

text \<open>
  C10. \<^verbatim>\<open>predict_next_values\<close> is not read-only. After a call that returns, the engine
  is trained and its \<^verbatim>\<open>model_data\<close> holds the trend slope; and if the engine was not
  trained when called, the call entered \<^verbatim>\<open>train_model\<close> first and the engine it leaves
  is the one \<^verbatim>\<open>train_model\<close> made, which differs from the one it found.
\<close>

theorem predict_trains_first:
  assumes "predict_next_values w self n = (Inr r, self', w')"
  shows "is_trained self'
       \<and> dict_has (model_data self') ''trend_slope'' \<and> model_data self' \<noteq> []
       \<and> (\<not> is_trained self \<longrightarrow>
            (\<exists>tr w1. train_model (enter ''predict_next_values'' w) self = (Inr tr, self', w1))
            \<and> take 2 (new_calls w w') = [''predict_next_values'', ''train_model'']
            \<and> self' \<noteq> self)"
proof (cases "is_trained self")
  case True
  with assms have body: "predict_body (enter ''predict_next_values'' w) self n = (Inr r, self', w')"
    by (simp add: predict_next_values_def Let_def)
  from predict_body_success [OF body] True show ?thesis
    by (auto simp: dict_has_def)
next
  case False
  with assms obtain tr self1 w1 where
    tm: "train_model (enter ''predict_next_values'' w) self = (Inr tr, self1, w1)"
    and body: "predict_body w1 self1 n = (Inr r, self', w')"
    by (auto simp: predict_next_values_def Let_def split: sum.splits prod.splits)
  from predict_body_success(1) [OF body] have same: "self' = self1" .
  from train_model_success [OF tm] same
  have t: "is_trained self'" "dict_has (model_data self') ''trend_slope''" "model_data self' \<noteq> []"
    by simp_all
  from t(1) False have neq: "self' \<noteq> self" by auto
  have "calls w' = calls w @ [''predict_next_values'', ''train_model'']"
    using predict_next_values_calls [OF assms] False by simp
  then have nc: "take 2 (new_calls w w') = [''predict_next_values'', ''train_model'']"
    by (simp add: new_calls_def)
  from tm same have "\<exists>tr w1. train_model (enter ''predict_next_values'' w) self = (Inr tr, self', w1)"
    by blast
  with t neq nc show ?thesis by blast
qed

lemma demo_prediction_returns:
  "\<not> isl (fst (predict_next_values w_init (ml_engine new_chatbot) 7))"
  by (simp add: predict_next_values_def predict_body_def train_model_def w_init_def
        new_chatbot_def ChatbotEngine_init_def MLEngine_init_def sample_point_def
        py_truediv_def list_last_def dict_getitem_def Let_def datetime_now_def
        random_uniform_def advance_def enter_def upt_conv_Cons split: prod.splits)

theorem predict_trains_first_witness:
  "\<not> is_trained (ml_engine new_chatbot)
   \<and> (\<exists>r self' w'.
        predict_next_values w_init (ml_engine new_chatbot) 7 = (Inr r, self', w')
      \<and> is_trained self' \<and> model_data self' \<noteq> [] \<and> self' \<noteq> ml_engine new_chatbot)"
proof -
  have untrained: "\<not> is_trained (ml_engine new_chatbot)"
    by (simp add: new_chatbot_def ChatbotEngine_init_def MLEngine_init_def)
  obtain x self' w' where
    eq: "predict_next_values w_init (ml_engine new_chatbot) 7 = (x, self', w')"
    by (cases "predict_next_values w_init (ml_engine new_chatbot) 7") auto
  with demo_prediction_returns obtain r where "x = Inr r"
    by (cases x) auto
  with eq have "predict_next_values w_init (ml_engine new_chatbot) 7 = (Inr r, self', w')"
    by simp
  from predict_trains_first [OF this] untrained this show ?thesis
    by blast
qed

end
